theory Spec2Isabelle
  imports Main
begin

section \<open>JavaScript values used by the routes\<close>

text \<open>
  An exception caught by a route's \<^verbatim>\<open>catch (error)\<close>: its \<^verbatim>\<open>error.message\<close>, and, for an
  axios error that carries a response, \<^verbatim>\<open>error.response?.status\<close> and
  \<^verbatim>\<open>error.response?.data?.error\<close> (\<open>None\<close> where the chain yields \<^verbatim>\<open>undefined\<close>).
\<close>

record js_error =
  err_message :: string
  err_status :: "nat option"
  err_data_error :: "string option"

text \<open>Truthiness of an optional string: \<^verbatim>\<open>undefined\<close> and the empty string are falsy.\<close>

definition truthy :: "string option \<Rightarrow> bool" where
  "truthy v = (case v of None \<Rightarrow> False | Some s \<Rightarrow> s \<noteq> [])"

text \<open>\<^verbatim>\<open>a || b\<close> on an optional string and on an optional status number (0 is falsy).\<close>

definition or_else :: "string option \<Rightarrow> string \<Rightarrow> string" where
  "or_else v d = (if truthy v then the v else d)"

definition status_or :: "nat option \<Rightarrow> nat \<Rightarrow> nat" where
  "status_or v d = (case v of None \<Rightarrow> d | Some n \<Rightarrow> if n = 0 then d else n)"

subsection \<open>parseInt\<close>

text \<open>
  A string of the model is the UTF-8 encoding of the JavaScript string it stands for.

  The built-in \<^verbatim>\<open>parseInt(string)\<close> without a radix: leading white space is skipped, one
  sign is read, a \<^verbatim>\<open>0x\<close>/\<^verbatim>\<open>0X\<close> prefix selects radix 16 (otherwise 10), the longest
  prefix of digits of that radix is the number, and no digit at all gives \<^verbatim>\<open>NaN\<close>, here
  \<open>None\<close>. The result is an exact integer; JavaScript rounds it to a double beyond
  \<open>2^53\<close>, far above the length of any array.

  White space is every WhiteSpace and LineTerminator code point of the language:
  U+0009 to U+000D and U+0020 (one byte), U+00A0 (two bytes), and U+1680, U+2000 to
  U+200A, U+2028, U+2029, U+202F, U+205F, U+3000 and U+FEFF (three bytes).
  \<open>ws_len\<close> is the number of bytes of the white-space code point a string starts with,
  0 when it starts with none.
\<close>

definition ws1 :: "char \<Rightarrow> bool" where
  "ws1 a = (a \<in> set [CHR 0x09, CHR 0x0A, CHR 0x0B, CHR 0x0C, CHR 0x0D, CHR 0x20])"

definition ws2 :: "char \<Rightarrow> char \<Rightarrow> bool" where
  "ws2 a b = (a = CHR 0xC2 \<and> b = CHR 0xA0)"

definition ws3 :: "char \<Rightarrow> char \<Rightarrow> char \<Rightarrow> bool" where
  "ws3 a b c =
     ((a = CHR 0xE1 \<and> b = CHR 0x9A \<and> c = CHR 0x80)
      \<or> (a = CHR 0xE2 \<and> b = CHR 0x80
          \<and> c \<in> set [CHR 0x80, CHR 0x81, CHR 0x82, CHR 0x83, CHR 0x84, CHR 0x85, CHR 0x86,
                       CHR 0x87, CHR 0x88, CHR 0x89, CHR 0x8A, CHR 0xA8, CHR 0xA9, CHR 0xAF])
      \<or> (a = CHR 0xE2 \<and> b = CHR 0x81 \<and> c = CHR 0x9F)
      \<or> (a = CHR 0xE3 \<and> b = CHR 0x80 \<and> c = CHR 0x80)
      \<or> (a = CHR 0xEF \<and> b = CHR 0xBB \<and> c = CHR 0xBF))"

fun ws_len :: "string \<Rightarrow> nat" where
  "ws_len (a # b # c # _) = (if ws1 a then 1 else if ws2 a b then 2 else if ws3 a b c then 3 else 0)"
| "ws_len [a, b] = (if ws1 a then 1 else if ws2 a b then 2 else 0)"
| "ws_len [a] = (if ws1 a then 1 else 0)"
| "ws_len [] = 0"

function skip_ws :: "string \<Rightarrow> string" where
  "skip_ws s = (if ws_len s = 0 then s else skip_ws (drop (ws_len s) s))"
  by pat_completeness auto
termination
proof (relation "measure length")
  show "wf (measure length)" by simp
next
  fix s :: string
  assume n: "ws_len s \<noteq> 0"
  then have "s \<noteq> []" by auto
  with n show "(drop (ws_len s) s, s) \<in> measure length"
    by simp
qed

declare skip_ws.simps [simp del]

definition digit_of :: "char \<Rightarrow> nat option" where
  "digit_of c =
     (let n = (of_char c :: nat) in
      if 48 \<le> n \<and> n \<le> 57 then Some (n - 48)
      else if 97 \<le> n \<and> n \<le> 102 then Some (n - 87)
      else if 65 \<le> n \<and> n \<le> 70 then Some (n - 55)
      else None)"

definition is_digit :: "nat \<Rightarrow> char \<Rightarrow> bool" where
  "is_digit R c = (case digit_of c of None \<Rightarrow> False | Some d \<Rightarrow> d < R)"

definition digits_value :: "nat \<Rightarrow> string \<Rightarrow> nat" where
  "digits_value R Z =
     foldl (\<lambda>acc c. acc * R + (case digit_of c of None \<Rightarrow> 0 | Some d \<Rightarrow> d)) 0 Z"

definition parseInt :: "string \<Rightarrow> int option" where
  "parseInt inputString =
     (let S = skip_ws inputString;
          sign = (case S of [] \<Rightarrow> (1::int) | c # _ \<Rightarrow> if c = CHR ''-'' then - 1 else 1);
          S1 = (case S of [] \<Rightarrow> S | c # r \<Rightarrow> if c = CHR ''+'' \<or> c = CHR ''-'' then r else S);
          hex = (case S1 of a # b # _ \<Rightarrow> a = CHR ''0'' \<and> (b = CHR ''x'' \<or> b = CHR ''X'')
                 | _ \<Rightarrow> False);
          R = (if hex then 16 else 10);
          S2 = (if hex then drop 2 S1 else S1);
          Z = takeWhile (is_digit R) S2
      in if Z = [] then None else Some (sign * int (digits_value R Z)))"

text \<open>
  \<^verbatim>\<open>array[n]\<close> for a parsed number: an element only at an integer index within the
  array, \<^verbatim>\<open>undefined\<close> for \<^verbatim>\<open>NaN\<close>, a negative number or an index past the end. The
  result is the index as a natural number.
\<close>

definition valid_index :: "'a list \<Rightarrow> int option \<Rightarrow> nat option" where
  "valid_index xs n =
     (case n of None \<Rightarrow> None
      | Some i \<Rightarrow> if 0 \<le> i \<and> i < int (length xs) then Some (nat i) else None)"

section \<open>The session document\<close>

text \<open>
  Modelled from the spec: the Mongoose schema \<^verbatim>\<open>models/SocraticSession\<close> that the routes
  require is not among the sources. The fields are those the routes read and write
  (\<^verbatim>\<open>userId\<close>, \<^verbatim>\<open>fileHashes\<close>, \<^verbatim>\<open>filenames\<close>, \<^verbatim>\<open>messages\<close>, \<^verbatim>\<open>studyPlan\<close>, \<^verbatim>\<open>currentTopicIndex\<close>,
  \<^verbatim>\<open>learningLevel\<close>), which are the spec's session fields. Array fields are always arrays
  (empty when never set), statuses and levels are stored as the strings given, and the
  values a new document gets for the fields a route does not supply are parameters
  (\<open>default_index\<close>, \<open>default_level\<close>). Timestamps and topic fields other than
  \<^verbatim>\<open>topic\<close>, \<^verbatim>\<open>description\<close> and \<^verbatim>\<open>status\<close> are left out.
\<close>

record message =
  role :: string
  content :: string

record plan_item =
  item_topic :: string
  item_description :: string

record topic_entry =
  topic :: string
  description :: string
  status :: string

record session =
  userId :: string
  fileHashes :: "string list"
  filenames :: "string list"
  messages :: "message list"
  studyPlan :: "topic_entry list"
  currentTopicIndex :: int
  learningLevel :: string

text \<open>
  The world a route runs in: the session collection, keyed by \<^verbatim>\<open>_id\<close>, and the files
  present in multer's \<^verbatim>\<open>uploads/\<close> directory.
\<close>

record world =
  sessions :: "string \<rightharpoonup> session"
  tmp_files :: "string set"

text \<open>
  What the routes are configured with: the SHA-256 hex digest computed by
  \<^verbatim>\<open>calculateFileHash\<close> as a function of the file's bytes, and the schema defaults.
\<close>

record config =
  sha256 :: "string \<Rightarrow> string"
  default_index :: int
  default_level :: string

datatype body =
  Message string
  | Failure string string
  | FileProcessed string bool "string option"
  | ChatReply string bool
  | SessionDoc "session option"

record response =
  code :: nat
  body :: body

definition json :: "body \<Rightarrow> response" where
  "json b = \<lparr>code = 200, body = b\<rparr>"

definition status_json :: "nat \<Rightarrow> body \<Rightarrow> response" where
  "status_json n b = \<lparr>code = n, body = b\<rparr>"

subsection \<open>Store operations\<close>

text \<open>\<^verbatim>\<open>SocraticSession.findOne({ _id: sessionId, userId })\<close>.\<close>

definition findOne :: "world \<Rightarrow> string \<Rightarrow> string \<Rightarrow> session option" where
  "findOne W sessionId uid =
     (case sessions W sessionId of None \<Rightarrow> None
      | Some s \<Rightarrow> if userId s = uid then Some s else None)"

text \<open>\<^verbatim>\<open>session.save()\<close> of a document with the given \<^verbatim>\<open>_id\<close>.\<close>

definition save :: "world \<Rightarrow> string \<Rightarrow> session \<Rightarrow> world" where
  "save W sessionId s = W\<lparr>sessions := (sessions W)(sessionId \<mapsto> s)\<rparr>"

text \<open>\<^verbatim>\<open>session.messages.push({ role, content })\<close>.\<close>

definition push_message :: "session \<Rightarrow> string \<Rightarrow> string \<Rightarrow> session" where
  "push_message s r c = s\<lparr>messages := messages s @ [\<lparr>role = r, content = c\<rparr>]\<rparr>"

text \<open>\<^verbatim>\<open>session.studyPlan[i].status = v\<close>, for an index within the plan.\<close>

definition set_status :: "session \<Rightarrow> nat \<Rightarrow> string \<Rightarrow> session" where
  "set_status s i v = s\<lparr>studyPlan := (studyPlan s)[i := (studyPlan s ! i)\<lparr>status := v\<rparr>]\<rparr>"

section \<open>Synthesized transcript entries\<close>

text \<open>
  The template literals of the routes, as the bytes of the source file (its emoji are
  stored mis-encoded, and are kept so).
\<close>

definition nl :: string where
  "nl = [CHR 0x0A]"

definition emoji_party :: string where
  "emoji_party = [CHR 0xC3, CHR 0xB0, CHR 0xC5, CHR 0xB8, CHR 0xC5, CHR 0xBD, CHR 0xE2, CHR 0x80, CHR 0xB0]"

definition emoji_trophy :: string where
  "emoji_trophy = [CHR 0xC3, CHR 0xB0, CHR 0xC5, CHR 0xB8, CHR 0xE2, CHR 0x80, CHR 0xA0]"

definition emoji_books :: string where
  "emoji_books = [CHR 0xC3, CHR 0xB0, CHR 0xC5, CHR 0xB8, CHR 0xE2, CHR 0x80, CHR 0x9C, CHR 0xC5, CHR 0xA1]"

definition emoji_cap :: string where
  "emoji_cap = [CHR 0xC3, CHR 0xB0, CHR 0xC5, CHR 0xB8, CHR 0xC5, CHR 0xBD, CHR 0xE2, CHR 0x80, CHR 0x9C]"

definition analyzed_msg :: "string \<Rightarrow> string option \<Rightarrow> string" where
  "analyzed_msg filename summary =
     ''I've analyzed **'' @ filename @ ''**. '' @
     (if truthy summary then nl @ nl @ ''**Summary:**'' @ nl @ the summary else [])"

definition auto_transition_msg :: "string \<Rightarrow> string \<Rightarrow> string" where
  "auto_transition_msg done_topic next_topic =
     emoji_party @ '' **Topic Completed!**'' @ nl @ nl @
     ''You've demonstrated a good understanding of **'' @ done_topic @ ''**.'' @ nl @
     ''Let's move on to the next topic: **'' @ next_topic @ ''**.''"

definition auto_complete_msg :: string where
  "auto_complete_msg =
     emoji_trophy @ '' **Congratulations!**'' @ nl @ nl @
     ''You have completed the entire study plan for this document!''"

definition plan_generated_msg :: "string \<Rightarrow> string \<Rightarrow> string" where
  "plan_generated_msg first_topic first_description =
     ''**Study Plan Generated!** '' @ emoji_books @ nl @ nl @
     ''I've created a study plan based on your documents. We'll start with: **'' @
     first_topic @ ''**.'' @ nl @ nl @ first_description"

definition manual_transition_msg :: "string \<Rightarrow> string \<Rightarrow> string" where
  "manual_transition_msg done_topic next_topic =
     ''Great job completing **'' @ done_topic @ ''**! '' @ emoji_party @ nl @ nl @
     ''Let's move on to: **'' @ next_topic @ ''**.''"

definition manual_complete_msg :: string where
  "manual_complete_msg = ''Congratulations! You've completed the entire study plan! '' @ emoji_cap"

section \<open>Route 8: update topic status\<close>

text \<open>
  A call of a route is the request together with the outcomes of the external calls the
  route makes while it runs: whether a store call throws (as it does, for one, when the
  session id is not a well-formed ObjectId), and what the reasoning service answers.
\<close>

record topic_call =
  t_userId :: string
  t_sessionId :: string
  t_topicIndex :: string
  t_status :: string
  t_find_err :: "js_error option"
  t_save_err :: "js_error option"

text \<open>The manual transition, from the assignment of the status to the end of its cascade.\<close>

definition manual_transition :: "session \<Rightarrow> nat \<Rightarrow> string \<Rightarrow> session" where
  "manual_transition session topicIndex new_status =
     (let s1 = set_status session topicIndex new_status in
      if new_status = ''completed'' then
        (let nextIndex = topicIndex + 1 in
         if nextIndex < length (studyPlan s1) then
           (if status (studyPlan s1 ! nextIndex) = ''pending'' then
              (let s2 = (set_status s1 nextIndex ''in-progress'')\<lparr>currentTopicIndex := int nextIndex\<rparr>
               in push_message s2 ''assistant''
                    (manual_transition_msg (topic (studyPlan s2 ! topicIndex))
                       (topic (studyPlan s2 ! nextIndex))))
            else s1)
         else push_message s1 ''assistant'' manual_complete_msg)
      else if new_status = ''in-progress'' then s1\<lparr>currentTopicIndex := int topicIndex\<rparr>
      else s1)"

definition set_topic_status :: "world \<Rightarrow> topic_call \<Rightarrow> response \<times> world" where
  "set_topic_status W c =
     (let topicIndex = parseInt (t_topicIndex c) in
      case t_find_err c of
        Some error \<Rightarrow> (status_json 500 (Message ''Failed to update topic''), W)
      | None \<Rightarrow>
      (case findOne W (t_sessionId c) (t_userId c) of
         None \<Rightarrow> (status_json 404 (Message ''Session not found''), W)
       | Some session \<Rightarrow>
         (case valid_index (studyPlan session) topicIndex of
            None \<Rightarrow> (status_json 400 (Message ''Invalid topic index''), W)
          | Some i \<Rightarrow>
            (let session' = manual_transition session i (t_status c) in
             case t_save_err c of
               Some error \<Rightarrow> (status_json 500 (Message ''Failed to update topic''), W)
             | None \<Rightarrow> (json (SessionDoc (Some session')), save W (t_sessionId c) session')))))"

section \<open>Route 2: chat\<close>

record chat_reply =
  r_response :: string
  r_topic_completed :: bool

record chat_call =
  c_userId :: string
  c_message :: "string option"
  c_sessionId :: "string option"
  c_find_err :: "js_error option"
  c_save1_err :: "js_error option"
  c_chat :: "js_error + chat_reply"
  c_save2_err :: "js_error option"

definition chat_failed :: "js_error \<Rightarrow> response" where
  "chat_failed error =
     status_json (status_or (err_status error) 500)
       (Message (or_else (err_data_error error) (err_message error)))"

definition current_topic :: "session \<Rightarrow> topic_entry option" where
  "current_topic session =
     (if 0 < length (studyPlan session) \<and> 0 \<le> currentTopicIndex session
         \<and> currentTopicIndex session < int (length (studyPlan session))
      then Some (studyPlan session ! nat (currentTopicIndex session))
      else None)"

text \<open>The automatic topic completion that follows the assistant's reply.\<close>

definition auto_advance :: "session \<Rightarrow> topic_entry option \<Rightarrow> bool \<Rightarrow> session" where
  "auto_advance session currentTopic isTopicCompleted =
     (case currentTopic of
        None \<Rightarrow> session
      | Some ct \<Rightarrow>
        if isTopicCompleted \<and> status ct \<noteq> ''completed'' then
          (let currentIndex = nat (currentTopicIndex session);
               s1 = set_status session currentIndex ''completed'';
               nextIndex = currentIndex + 1
           in if nextIndex < length (studyPlan s1) then
                (let s2 = (set_status s1 nextIndex ''in-progress'')\<lparr>currentTopicIndex := int nextIndex\<rparr>
                 in push_message s2 ''assistant''
                      (auto_transition_msg (topic ct) (topic (studyPlan s2 ! nextIndex))))
              else push_message s1 ''assistant'' auto_complete_msg)
        else session)"

definition chat :: "world \<Rightarrow> chat_call \<Rightarrow> response \<times> world" where
  "chat W c =
     (if \<not> truthy (c_message c) \<or> \<not> truthy (c_sessionId c)
      then (status_json 400 (Message ''Missing fields''), W)
      else
       (let message = the (c_message c); sessionId = the (c_sessionId c) in
        case c_find_err c of
          Some error \<Rightarrow> (chat_failed error, W)
        | None \<Rightarrow>
        (case findOne W sessionId (c_userId c) of
           None \<Rightarrow> (status_json 404 (Message ''Session not found''), W)
         | Some session \<Rightarrow>
           (let session1 = push_message session ''user'' message in
            case c_save1_err c of
              Some error \<Rightarrow> (chat_failed error, W)
            | None \<Rightarrow>
              (let W1 = save W sessionId session1;
                   currentTopic = current_topic session1
               in case c_chat c of
                    Inl error \<Rightarrow> (chat_failed error, W1)
                  | Inr pyRes \<Rightarrow>
                    (let assistantResponse = r_response pyRes;
                         isTopicCompleted = r_topic_completed pyRes;
                         session2 = push_message session1 ''assistant'' assistantResponse;
                         session3 = auto_advance session2 currentTopic isTopicCompleted
                     in case c_save2_err c of
                          Some error \<Rightarrow> (chat_failed error, W1)
                        | None \<Rightarrow>
                            (json (ChatReply assistantResponse isTopicCompleted),
                             save W1 sessionId session3)))))))"

section \<open>Route 7: generate study plan\<close>

record plan_call =
  p_userId :: string
  p_sessionId :: string
  p_find_err :: "js_error option"
  p_plan :: "js_error + plan_item list"
  p_save_err :: "js_error option"

definition init_plan :: "plan_item list \<Rightarrow> topic_entry list" where
  "init_plan study_plan =
     map (\<lambda>item. \<lparr>topic = item_topic item, description = item_description item,
                  status = ''pending''\<rparr>) study_plan"

text \<open>Auto-start of the first topic.\<close>

definition start_plan :: "session \<Rightarrow> session" where
  "start_plan session =
     (if 0 < length (studyPlan session) then
        (let s1 = (set_status session 0 ''in-progress'')\<lparr>currentTopicIndex := 0\<rparr>
         in push_message s1 ''assistant''
              (plan_generated_msg (topic (studyPlan s1 ! 0)) (description (studyPlan s1 ! 0))))
      else session)"

definition plan_failed :: "js_error \<Rightarrow> response" where
  "plan_failed error =
     status_json 500 (Message (or_else (err_data_error error) ''Failed to generate plan''))"

definition generate_plan :: "world \<Rightarrow> plan_call \<Rightarrow> response \<times> world" where
  "generate_plan W c =
     (case p_find_err c of
        Some error \<Rightarrow> (plan_failed error, W)
      | None \<Rightarrow>
      (case findOne W (p_sessionId c) (p_userId c) of
         None \<Rightarrow> (status_json 404 (Message ''Session not found''), W)
       | Some session \<Rightarrow>
         (case p_plan c of
            Inl error \<Rightarrow> (plan_failed error, W)
          | Inr study_plan \<Rightarrow>
            (let session' = start_plan (session\<lparr>studyPlan := init_plan study_plan\<rparr>) in
             case p_save_err c of
               Some error \<Rightarrow> (plan_failed error, W)
             | None \<Rightarrow> (json (SessionDoc (Some session')), save W (p_sessionId c) session')))))"

section \<open>Route 6: set learning level\<close>

record level_call =
  l_userId :: string
  l_sessionId :: string
  l_level :: string
  l_update_err :: "js_error option"

text \<open>
  \<^verbatim>\<open>findOneAndUpdate(filter, { learningLevel: level }, { new: true })\<close> updates the matching
  document and returns it, and returns \<^verbatim>\<open>null\<close>, inserting nothing, when none matches.
\<close>

definition set_level :: "world \<Rightarrow> level_call \<Rightarrow> response \<times> world" where
  "set_level W c =
     (if l_level c \<notin> set [''beginner'', ''intermediate'', ''advanced'']
      then (status_json 400 (Message ''Invalid level''), W)
      else
       (case l_update_err c of
          Some error \<Rightarrow> (status_json 500 (Message ''Failed to update level''), W)
        | None \<Rightarrow>
          (case findOne W (l_sessionId c) (l_userId c) of
             None \<Rightarrow> (json (SessionDoc None), W)
           | Some session \<Rightarrow>
             (let session' = session\<lparr>learningLevel := l_level c\<rparr>
              in (json (SessionDoc (Some session')), save W (l_sessionId c) session')))))"

section \<open>Route 5: delete session\<close>

record delete_call =
  d_userId :: string
  d_sessionId :: string
  d_delete_err :: "js_error option"

definition delete_session :: "world \<Rightarrow> delete_call \<Rightarrow> response \<times> world" where
  "delete_session W c =
     (case d_delete_err c of
        Some error \<Rightarrow> (status_json 500 (Message ''Failed to delete session''), W)
      | None \<Rightarrow>
          (json (Message ''Session deleted''),
           (case findOne W (d_sessionId c) (d_userId c) of
              None \<Rightarrow> W
            | Some session \<Rightarrow> W\<lparr>sessions := (sessions W)(d_sessionId c := None)\<rparr>)))"

section \<open>Route 1: upload\<close>

record uploaded_file =
  f_path :: string
  f_originalname :: string
  f_bytes :: string

record ingest_reply =
  i_cached :: bool
  i_summary :: "string option"

text \<open>
  \<open>u_new_id\<close> is the \<^verbatim>\<open>_id\<close> a new document is given. Saving a new document under an
  \<^verbatim>\<open>_id\<close> the collection already holds is refused by the store with a duplicate-key
  error.
\<close>

record upload_call =
  u_userId :: string
  u_file :: "uploaded_file option"
  u_sessionId :: "string option"
  u_read_err :: "js_error option"
  u_ingest :: "js_error + ingest_reply"
  u_find_err :: "js_error option"
  u_new_id :: string
  u_save_err :: "js_error option"

definition duplicate_key :: js_error where
  "duplicate_key =
     \<lparr>err_message = ''E11000 duplicate key error'', err_status = None, err_data_error = None\<rparr>"

text \<open>The middleware \<^verbatim>\<open>upload.single('file')\<close>: the uploaded file is written under its path.\<close>

definition multer_single :: "world \<Rightarrow> upload_call \<Rightarrow> world" where
  "multer_single W c =
     (case u_file c of
        None \<Rightarrow> W
      | Some f \<Rightarrow> W\<lparr>tmp_files := insert (f_path f) (tmp_files W)\<rparr>)"

definition new_session :: "config \<Rightarrow> string \<Rightarrow> session" where
  "new_session cfg uid =
     \<lparr>userId = uid, fileHashes = [], filenames = [], messages = [], studyPlan = [],
      currentTopicIndex = default_index cfg, learningLevel = default_level cfg\<rparr>"

text \<open>Add file info if not already present.\<close>

definition add_file :: "session \<Rightarrow> string \<Rightarrow> string \<Rightarrow> session" where
  "add_file session fileHash filename =
     (if fileHash \<notin> set (fileHashes session)
      then session\<lparr>fileHashes := fileHashes session @ [fileHash],
                   filenames := filenames session @ [filename]\<rparr>
      else session)"

text \<open>The body of the route's \<^verbatim>\<open>try\<close>: \<open>Inl\<close> is the exception thrown to its \<^verbatim>\<open>catch\<close>.\<close>

definition upload_try ::
  "config \<Rightarrow> world \<Rightarrow> upload_call \<Rightarrow> uploaded_file \<Rightarrow> js_error + response \<times> world" where
  "upload_try cfg W c f =
     (let filepath = f_path f; filename = f_originalname f in
      case u_read_err c of
        Some error \<Rightarrow> Inl error
      | None \<Rightarrow>
      (let fileHash = sha256 cfg (f_bytes f) in
       case u_ingest c of
         Inl error \<Rightarrow> Inl error
       | Inr pyRes \<Rightarrow>
         (if truthy (u_sessionId c) \<and> u_find_err c \<noteq> None then Inl (the (u_find_err c))
          else
           (let found = (if truthy (u_sessionId c)
                         then findOne W (the (u_sessionId c)) (u_userId c) else None);
                is_new = (found = None);
                session = (case found of None \<Rightarrow> new_session cfg (u_userId c) | Some s \<Rightarrow> s);
                session_id = (if is_new then u_new_id c else the (u_sessionId c));
                session1 = add_file session fileHash filename;
                session2 = push_message session1 ''assistant''
                             (analyzed_msg filename (i_summary pyRes))
            in if u_save_err c \<noteq> None then Inl (the (u_save_err c))
               else if is_new \<and> sessions W session_id \<noteq> None then Inl duplicate_key
               else
                 Inr (json (FileProcessed session_id (i_cached pyRes) (i_summary pyRes)),
                      (save W session_id session2)
                        \<lparr>tmp_files := tmp_files W - {filepath}\<rparr>)))))"

definition upload :: "config \<Rightarrow> world \<Rightarrow> upload_call \<Rightarrow> response \<times> world" where
  "upload cfg W c =
     (case u_file c of
        None \<Rightarrow> (status_json 400 (Message ''No file uploaded''), W)
      | Some f \<Rightarrow>
        (case upload_try cfg W c f of
           Inl error \<Rightarrow> (status_json 500 (Failure ''Upload failed'' (err_message error)), W)
         | Inr r \<Rightarrow> r))"

text \<open>The route as mounted: the middleware, then the handler.\<close>

definition upload_route :: "config \<Rightarrow> world \<Rightarrow> upload_call \<Rightarrow> response \<times> world" where
  "upload_route cfg W c = upload cfg (multer_single W c) c"

section \<open>Sequences of operations\<close>

text \<open>
  The operations that can change the world, and runs of them. The two read-only routes
  (list sessions, get history) change nothing and are left out.
\<close>

datatype action =
  Upload upload_call
  | Chat chat_call
  | SetLevel level_call
  | GeneratePlan plan_call
  | SetTopicStatus topic_call
  | DeleteSession delete_call

fun step :: "config \<Rightarrow> world \<Rightarrow> action \<Rightarrow> world" where
  "step cfg W (Upload c) = snd (upload_route cfg W c)"
| "step cfg W (Chat c) = snd (chat W c)"
| "step cfg W (SetLevel c) = snd (set_level W c)"
| "step cfg W (GeneratePlan c) = snd (generate_plan W c)"
| "step cfg W (SetTopicStatus c) = snd (set_topic_status W c)"
| "step cfg W (DeleteSession c) = snd (delete_session W c)"

fun run :: "config \<Rightarrow> world \<Rightarrow> action list \<Rightarrow> world" where
  "run cfg W [] = W"
| "run cfg W (a # acts) = run cfg (step cfg W a) acts"

definition empty_world :: world where
  "empty_world = \<lparr>sessions = Map.empty, tmp_files = {}\<rparr>"

section \<open>Vocabulary of the properties\<close>

text \<open>The number of topics of a plan whose status is \<open>in-progress\<close>.\<close>

definition in_progress_count :: "topic_entry list \<Rightarrow> nat" where
  "in_progress_count plan = length (filter (\<lambda>t. status t = ''in-progress'') plan)"

text \<open>The number of \<open>in-progress\<close> topics of the session stored under an id, if there is one.\<close>

definition in_progress_at :: "world \<Rightarrow> string \<Rightarrow> nat option" where
  "in_progress_at W sid =
     (case sessions W sid of None \<Rightarrow> None | Some s \<Rightarrow> Some (in_progress_count (studyPlan s)))"

text \<open>
  A plan is the fresh plan of a gateway answer: the same topics in the same order, the
  first \<open>in-progress\<close> and every other \<open>pending\<close>.
\<close>

definition fresh_plan_of :: "plan_item list \<Rightarrow> topic_entry list \<Rightarrow> bool" where
  "fresh_plan_of items plan =
     (length plan = length items \<and>
      (\<forall>j < length items.
         plan ! j = \<lparr>topic = item_topic (items ! j), description = item_description (items ! j),
                     status = (if j = 0 then ''in-progress'' else ''pending'')\<rparr>))"

text \<open>A property of sessions holds of every session in the store.\<close>

definition all_sessions :: "(session \<Rightarrow> bool) \<Rightarrow> world \<Rightarrow> bool" where
  "all_sessions P W = (\<forall>sid s. sessions W sid = Some s \<longrightarrow> P s)"

text \<open>Fingerprints are distinct and there are as many names as fingerprints.\<close>

definition files_ok :: "session \<Rightarrow> bool" where
  "files_ok s = (distinct (fileHashes s) \<and> length (filenames s) = length (fileHashes s))"

text \<open>Every \<open>in-progress\<close> topic is the one under the cursor.\<close>

definition cursor_marks :: "session \<Rightarrow> bool" where
  "cursor_marks s =
     (\<forall>j < length (studyPlan s).
        status (studyPlan s ! j) = ''in-progress'' \<longrightarrow> int j = currentTopicIndex s)"

text \<open>
  A manual status update is disciplined when, if it is about to make a topic
  \<open>in-progress\<close> (by setting that status, or by completing the topic before a \<open>pending\<close>
  one), no topic other than the addressed one is \<open>in-progress\<close>. Every other operation
  is disciplined.
\<close>

definition disciplined :: "world \<Rightarrow> action \<Rightarrow> bool" where
  "disciplined W a =
     (case a of
        SetTopicStatus c \<Rightarrow>
          (case findOne W (t_sessionId c) (t_userId c) of
             None \<Rightarrow> True
           | Some s \<Rightarrow>
             (case valid_index (studyPlan s) (parseInt (t_topicIndex c)) of
                None \<Rightarrow> True
              | Some i \<Rightarrow>
                  (t_status c = ''in-progress''
                   \<or> (t_status c = ''completed'' \<and> Suc i < length (studyPlan s)
                       \<and> status (studyPlan s ! Suc i) = ''pending''))
                  \<longrightarrow> (\<forall>j < length (studyPlan s).
                         status (studyPlan s ! j) = ''in-progress'' \<longrightarrow> j = i)))
      | _ \<Rightarrow> True)"

fun disciplined_run :: "config \<Rightarrow> world \<Rightarrow> action list \<Rightarrow> bool" where
  "disciplined_run cfg W [] = True"
| "disciplined_run cfg W (a # acts) = (disciplined W a \<and> disciplined_run cfg (step cfg W a) acts)"

text \<open>
  Completing the topics of a plan from left to right: the \<open>k\<close>-th call names index \<open>k\<close>
  by its decimal numeral, sets \<open>completed\<close>, and meets a store that answers.
\<close>

fun decimal :: "nat \<Rightarrow> string" where
  "decimal n =
     (if n < 10 then [''0123456789'' ! n]
      else decimal (n div 10) @ [''0123456789'' ! (n mod 10)])"

declare decimal.simps [simp del]

definition complete_call :: "string \<Rightarrow> string \<Rightarrow> nat \<Rightarrow> topic_call" where
  "complete_call uid sid k =
     \<lparr>t_userId = uid, t_sessionId = sid, t_topicIndex = decimal k, t_status = ''completed'',
      t_find_err = None, t_save_err = None\<rparr>"

fun complete_first :: "world \<Rightarrow> string \<Rightarrow> string \<Rightarrow> nat \<Rightarrow> world" where
  "complete_first W uid sid 0 = W"
| "complete_first W uid sid (Suc k) =
     snd (set_topic_status (complete_first W uid sid k) (complete_call uid sid k))"

text \<open>
  The plan of the given items when the first \<open>k\<close> topics are \<open>completed\<close>, the next one
  (if any) is \<open>in-progress\<close> and the rest are \<open>pending\<close>.
\<close>

definition entry :: "string \<Rightarrow> plan_item \<Rightarrow> topic_entry" where
  "entry v item = \<lparr>topic = item_topic item, description = item_description item, status = v\<rparr>"

definition progress_plan :: "plan_item list \<Rightarrow> nat \<Rightarrow> topic_entry list" where
  "progress_plan items k =
     map (entry ''completed'') (take k items) @
     (case drop k items of
        [] \<Rightarrow> []
      | x # xs \<Rightarrow> entry ''in-progress'' x # map (entry ''pending'') xs)"

section \<open>Scenarios\<close>

text \<open>
  One session of one user, alone in the store, with a three-topic plan of given statuses
  and a given cursor, and calls on it whose external calls all succeed. Ids are
  well-formed ObjectIds, which the store accepts.
\<close>

definition demo_topics :: "string \<Rightarrow> string \<Rightarrow> string \<Rightarrow> topic_entry list" where
  "demo_topics a b c =
     [\<lparr>topic = ''A'', description = ''a'', status = a\<rparr>,
      \<lparr>topic = ''B'', description = ''b'', status = b\<rparr>,
      \<lparr>topic = ''C'', description = ''c'', status = c\<rparr>]"

definition demo_session :: "topic_entry list \<Rightarrow> int \<Rightarrow> session" where
  "demo_session plan idx =
     \<lparr>userId = ''65a1b2c3d4e5f60718293a4b'', fileHashes = [''h1''], filenames = [''f1.pdf''], messages = [],
      studyPlan = plan, currentTopicIndex = idx, learningLevel = ''beginner''\<rparr>"

definition demo_world :: "session \<Rightarrow> world" where
  "demo_world s = \<lparr>sessions = [''507f1f77bcf86cd799439011'' \<mapsto> s], tmp_files = {}\<rparr>"

definition demo_topic_call :: "string \<Rightarrow> string \<Rightarrow> topic_call" where
  "demo_topic_call idx v =
     \<lparr>t_userId = ''65a1b2c3d4e5f60718293a4b'', t_sessionId = ''507f1f77bcf86cd799439011'', t_topicIndex = idx, t_status = v,
      t_find_err = None, t_save_err = None\<rparr>"

definition demo_chat_call :: "js_error + chat_reply \<Rightarrow> chat_call" where
  "demo_chat_call r =
     \<lparr>c_userId = ''65a1b2c3d4e5f60718293a4b'', c_message = Some ''hi'', c_sessionId = Some ''507f1f77bcf86cd799439011'',
      c_find_err = None, c_save1_err = None, c_chat = r, c_save2_err = None\<rparr>"

definition demo_config :: config where
  "demo_config = \<lparr>sha256 = (\<lambda>bytes. ''h'' @ bytes), default_index = - 1, default_level = ''beginner''\<rparr>"

definition demo_plan_call :: "js_error + plan_item list \<Rightarrow> plan_call" where
  "demo_plan_call r =
     \<lparr>p_userId = ''65a1b2c3d4e5f60718293a4b'', p_sessionId = ''507f1f77bcf86cd799439011'', p_find_err = None, p_plan = r, p_save_err = None\<rparr>"

definition demo_items :: "plan_item list" where
  "demo_items =
     [\<lparr>item_topic = ''X'', item_description = ''x''\<rparr>, \<lparr>item_topic = ''Y'', item_description = ''y''\<rparr>]"

definition demo_level_call :: "string \<Rightarrow> string \<Rightarrow> level_call" where
  "demo_level_call sid lvl =
     \<lparr>l_userId = ''65a1b2c3d4e5f60718293a4b'', l_sessionId = sid, l_level = lvl, l_update_err = None\<rparr>"

definition demo_upload_call ::
  "string option \<Rightarrow> string \<Rightarrow> string \<Rightarrow> js_error + ingest_reply \<Rightarrow> upload_call" where
  "demo_upload_call sid name bytes r =
     \<lparr>u_userId = ''65a1b2c3d4e5f60718293a4b'',
      u_file = Some \<lparr>f_path = ''uploads/tmp1'', f_originalname = name, f_bytes = bytes\<rparr>,
      u_sessionId = sid, u_read_err = None, u_ingest = r, u_find_err = None,
      u_new_id = ''507f1f77bcf86cd799439011'', u_save_err = None\<rparr>"

section \<open>Evaluation helpers\<close>

lemma skip_ws_none: "ws_len s = 0 \<Longrightarrow> skip_ws s = s"
  by (simp add: skip_ws.simps [of s])

lemma skip_ws_some: "ws_len s \<noteq> 0 \<Longrightarrow> skip_ws s = skip_ws (drop (ws_len s) s)"
  by (subst skip_ws.simps) simp

lemmas parse_defs = parseInt_def skip_ws_none skip_ws_some ws1_def ws2_def ws3_def
  is_digit_def digit_of_def digits_value_def

text \<open>A no-break space, or a line separator and a space, before the digits is skipped.\<close>

lemma parseInt_nbsp: "parseInt ([CHR 0xC2, CHR 0xA0] @ ''1'') = Some 1"
  by (simp add: parse_defs)

lemma parseInt_line_separator: "parseInt ([CHR 0xE2, CHR 0x80, CHR 0xA8, CHR 0x20] @ ''12px'') = Some 12"
  by (simp add: parse_defs)

lemma parseInt_0: "parseInt ''0'' = Some (int 0)"
  by (simp add: parse_defs)

lemma parseInt_1: "parseInt ''1'' = Some (int 1)"
  by (simp add: parse_defs)

lemma parseInt_2: "parseInt ''2'' = Some (int 2)"
  by (simp add: parse_defs)

lemma findOne_demo: "findOne (demo_world (demo_session plan idx)) ''507f1f77bcf86cd799439011'' ''65a1b2c3d4e5f60718293a4b'' = Some (demo_session plan idx)"
  by (simp add: findOne_def demo_world_def demo_session_def)

lemma demo_session_simps:
  "studyPlan (demo_session plan idx) = plan"
  "currentTopicIndex (demo_session plan idx) = idx"
  "messages (demo_session plan idx) = []"
  by (simp_all add: demo_session_def)

lemma demo_topic_call_simps:
  "t_userId (demo_topic_call idx v) = ''65a1b2c3d4e5f60718293a4b''"
  "t_sessionId (demo_topic_call idx v) = ''507f1f77bcf86cd799439011''"
  "t_topicIndex (demo_topic_call idx v) = idx"
  "t_status (demo_topic_call idx v) = v"
  "t_find_err (demo_topic_call idx v) = None"
  "t_save_err (demo_topic_call idx v) = None"
  by (simp_all add: demo_topic_call_def)

lemma demo_chat_call_simps:
  "c_userId (demo_chat_call r) = ''65a1b2c3d4e5f60718293a4b''"
  "c_message (demo_chat_call r) = Some ''hi''"
  "c_sessionId (demo_chat_call r) = Some ''507f1f77bcf86cd799439011''"
  "c_find_err (demo_chat_call r) = None"
  "c_save1_err (demo_chat_call r) = None"
  "c_chat (demo_chat_call r) = r"
  "c_save2_err (demo_chat_call r) = None"
  by (simp_all add: demo_chat_call_def)

section \<open>Basic facts about the store and the cursor\<close>

lemma save_save: "save (save W k a) k b = save W k b"
  by (simp add: save_def)

lemma valid_index_Some: "i < length xs \<Longrightarrow> valid_index xs (Some (int i)) = Some i"
  by (simp add: valid_index_def)

lemma current_topic_push: "current_topic (push_message s r m) = current_topic s"
  by (simp add: current_topic_def push_message_def)

lemma current_topic_Some:
  "currentTopicIndex s = int i \<Longrightarrow> i < length (studyPlan s) \<Longrightarrow> current_topic s = Some (studyPlan s ! i)"
  by (auto simp add: current_topic_def)

section \<open>Manual transition: invalid index\<close>

text \<open>
  C9. When the store answers and the session exists, a set-topic-status call whose index
  string does not parse to the index of an existing topic (it is not a number, or the
  number is negative or not below the length of the plan, which covers the empty plan)
  is answered with status 400, "Invalid topic index", and the world is returned as it
  was: the plan, the cursor and the transcript of every session are unchanged.
\<close>

theorem set_topic_status_invalid_index:
  assumes "t_find_err c = None"
    and "findOne W (t_sessionId c) (t_userId c) = Some s"
    and "\<forall>i. parseInt (t_topicIndex c) = Some i \<longrightarrow> i < 0 \<or> int (length (studyPlan s)) \<le> i"
  shows "set_topic_status W c = (status_json 400 (Message ''Invalid topic index''), W)"
proof -
  have "valid_index (studyPlan s) (parseInt (t_topicIndex c)) = None"
    using assms(3) by (auto simp: valid_index_def split: option.splits)
  then show ?thesis
    using assms(1,2) by (simp add: set_topic_status_def)
qed

theorem set_topic_status_invalid_index_witness:
  "set_topic_status (demo_world (demo_session (demo_topics ''in-progress'' ''pending'' ''pending'') 0))
       (demo_topic_call ''7'' ''completed'')
     = (status_json 400 (Message ''Invalid topic index''),
        demo_world (demo_session (demo_topics ''in-progress'' ''pending'' ''pending'') 0))
   \<and> set_topic_status (demo_world (demo_session (demo_topics ''in-progress'' ''pending'' ''pending'') 0))
       (demo_topic_call ''-1'' ''completed'')
     = (status_json 400 (Message ''Invalid topic index''),
        demo_world (demo_session (demo_topics ''in-progress'' ''pending'' ''pending'') 0))
   \<and> set_topic_status (demo_world (demo_session (demo_topics ''in-progress'' ''pending'' ''pending'') 0))
       (demo_topic_call ''abc'' ''completed'')
     = (status_json 400 (Message ''Invalid topic index''),
        demo_world (demo_session (demo_topics ''in-progress'' ''pending'' ''pending'') 0))
   \<and> set_topic_status (demo_world (demo_session (demo_topics ''in-progress'' ''pending'' ''pending'') 0))
       (demo_topic_call ([CHR 0xC2, CHR 0xA0] @ ''7'') ''completed'')
     = (status_json 400 (Message ''Invalid topic index''),
        demo_world (demo_session (demo_topics ''in-progress'' ''pending'' ''pending'') 0))
   \<and> set_topic_status (demo_world (demo_session [] (- 1))) (demo_topic_call ''0'' ''completed'')
     = (status_json 400 (Message ''Invalid topic index''), demo_world (demo_session [] (- 1)))"
proof -
  let ?s = "demo_session (demo_topics ''in-progress'' ''pending'' ''pending'') 0"
  have f: "findOne (demo_world (demo_session plan k)) (t_sessionId (demo_topic_call idx v))
             (t_userId (demo_topic_call idx v)) = Some (demo_session plan k)" for idx v plan k
    by (simp add: findOne_demo demo_topic_call_simps)
  have e: "t_find_err (demo_topic_call idx v) = None" for idx v
    by (simp add: demo_topic_call_simps)
  have p7: "\<forall>i. parseInt (t_topicIndex (demo_topic_call ''7'' ''completed'')) = Some i
              \<longrightarrow> i < 0 \<or> int (length (studyPlan ?s)) \<le> i"
    by (simp add: parse_defs demo_topic_call_simps demo_session_simps demo_topics_def)
  have pm: "\<forall>i. parseInt (t_topicIndex (demo_topic_call ''-1'' ''completed'')) = Some i
              \<longrightarrow> i < 0 \<or> int (length (studyPlan ?s)) \<le> i"
    by (simp add: parse_defs demo_topic_call_simps demo_session_simps demo_topics_def)
  have pa: "\<forall>i. parseInt (t_topicIndex (demo_topic_call ''abc'' ''completed'')) = Some i
              \<longrightarrow> i < 0 \<or> int (length (studyPlan ?s)) \<le> i"
    by (simp add: parse_defs demo_topic_call_simps demo_session_simps demo_topics_def)
  have pw: "\<forall>i. parseInt (t_topicIndex (demo_topic_call ([CHR 0xC2, CHR 0xA0] @ ''7'') ''completed'')) = Some i
              \<longrightarrow> i < 0 \<or> int (length (studyPlan ?s)) \<le> i"
    by (simp add: parse_defs demo_topic_call_simps demo_session_simps demo_topics_def)
  have p0: "\<forall>i. parseInt (t_topicIndex (demo_topic_call ''0'' ''completed'')) = Some i
              \<longrightarrow> i < 0 \<or> int (length (studyPlan (demo_session [] (- 1)))) \<le> i"
    by (simp add: parse_defs demo_topic_call_simps demo_session_simps)
  show ?thesis
    using set_topic_status_invalid_index [OF e f p7]
      set_topic_status_invalid_index [OF e f pm]
      set_topic_status_invalid_index [OF e f pa]
      set_topic_status_invalid_index [OF e f pw]
      set_topic_status_invalid_index [OF e f p0]
    by blast
qed

section \<open>Manual transition: completing a topic\<close>

lemma set_topic_status_ok:
  assumes "t_find_err c = None" and "t_save_err c = None"
    and "findOne W (t_sessionId c) (t_userId c) = Some s"
    and "parseInt (t_topicIndex c) = Some (int i)" and "i < length (studyPlan s)"
  shows "set_topic_status W c =
           (json (SessionDoc (Some (manual_transition s i (t_status c)))),
            save W (t_sessionId c) (manual_transition s i (t_status c)))"
  using assms by (simp add: set_topic_status_def valid_index_Some Let_def)

text \<open>
  C2. A set-topic-status call with status \<open>completed\<close> at a valid index \<open>i\<close>, with the
  store answering, succeeds and persists a session \<open>s'\<close> in which topic \<open>i\<close> is the old
  topic with status \<open>completed\<close>. If topic \<open>i+1\<close> exists and was exactly \<open>pending\<close>, it
  is \<open>in-progress\<close> in \<open>s'\<close>, the cursor is \<open>i+1\<close> and the transcript has gained exactly
  the transition entry naming both topics. If topic \<open>i+1\<close> exists and was \<open>in-progress\<close>
  or \<open>completed\<close>, that topic, the cursor and the transcript are unchanged. If there is
  no topic \<open>i+1\<close>, the transcript has gained exactly the "plan complete" entry and the
  cursor is unchanged.
\<close>

theorem set_topic_status_completed:
  assumes "t_find_err c = None" and "t_save_err c = None"
    and "findOne W (t_sessionId c) (t_userId c) = Some s"
    and "parseInt (t_topicIndex c) = Some (int i)" and "i < length (studyPlan s)"
    and "t_status c = ''completed''"
  shows "\<exists>s'. set_topic_status W c = (json (SessionDoc (Some s')), save W (t_sessionId c) s')
     \<and> length (studyPlan s') = length (studyPlan s)
     \<and> studyPlan s' ! i = (studyPlan s ! i)\<lparr>status := ''completed''\<rparr>
     \<and> (Suc i < length (studyPlan s) \<and> status (studyPlan s ! Suc i) = ''pending'' \<longrightarrow>
          studyPlan s' ! Suc i = (studyPlan s ! Suc i)\<lparr>status := ''in-progress''\<rparr>
          \<and> currentTopicIndex s' = int (Suc i)
          \<and> messages s' = messages s @
               [\<lparr>role = ''assistant'',
                 content = manual_transition_msg (topic (studyPlan s ! i)) (topic (studyPlan s ! Suc i))\<rparr>])
     \<and> (Suc i < length (studyPlan s)
          \<and> (status (studyPlan s ! Suc i) = ''in-progress'' \<or> status (studyPlan s ! Suc i) = ''completed'') \<longrightarrow>
          studyPlan s' ! Suc i = studyPlan s ! Suc i
          \<and> currentTopicIndex s' = currentTopicIndex s
          \<and> messages s' = messages s)
     \<and> (\<not> Suc i < length (studyPlan s) \<longrightarrow>
          currentTopicIndex s' = currentTopicIndex s
          \<and> messages s' = messages s @ [\<lparr>role = ''assistant'', content = manual_complete_msg\<rparr>])"
proof -
  let ?s' = "manual_transition s i ''completed''"
  have r: "set_topic_status W c = (json (SessionDoc (Some ?s')), save W (t_sessionId c) ?s')"
    using set_topic_status_ok [OF assms(1-5)] assms(6) by simp
  have 1: "length (studyPlan ?s') = length (studyPlan s)"
    by (simp add: manual_transition_def set_status_def push_message_def Let_def)
  have 2: "studyPlan ?s' ! i = (studyPlan s ! i)\<lparr>status := ''completed''\<rparr>"
    using assms(5) by (simp add: manual_transition_def set_status_def push_message_def Let_def)
  have 3: "studyPlan ?s' ! Suc i = (studyPlan s ! Suc i)\<lparr>status := ''in-progress''\<rparr>
          \<and> currentTopicIndex ?s' = int (Suc i)
          \<and> messages ?s' = messages s @
               [\<lparr>role = ''assistant'',
                 content = manual_transition_msg (topic (studyPlan s ! i)) (topic (studyPlan s ! Suc i))\<rparr>]"
    if "Suc i < length (studyPlan s)" "status (studyPlan s ! Suc i) = ''pending''"
    using that assms(5) by (simp add: manual_transition_def set_status_def push_message_def Let_def)
  have 4: "studyPlan ?s' ! Suc i = studyPlan s ! Suc i
          \<and> currentTopicIndex ?s' = currentTopicIndex s
          \<and> messages ?s' = messages s"
    if "Suc i < length (studyPlan s)"
       "status (studyPlan s ! Suc i) = ''in-progress'' \<or> status (studyPlan s ! Suc i) = ''completed''"
    using that assms(5) by (auto simp add: manual_transition_def set_status_def push_message_def Let_def)
  have 5: "currentTopicIndex ?s' = currentTopicIndex s
          \<and> messages ?s' = messages s @ [\<lparr>role = ''assistant'', content = manual_complete_msg\<rparr>]"
    if "\<not> Suc i < length (studyPlan s)"
    using that assms(5) by (simp add: manual_transition_def set_status_def push_message_def Let_def)
  from r 1 2 3 4 5 show ?thesis by blast
qed

theorem set_topic_status_completed_witness:
  "(\<exists>s'. set_topic_status (demo_world (demo_session (demo_topics ''in-progress'' ''pending'' ''pending'') 0))
             (demo_topic_call ''0'' ''completed'')
            = (json (SessionDoc (Some s')),
               save (demo_world (demo_session (demo_topics ''in-progress'' ''pending'' ''pending'') 0)) ''507f1f77bcf86cd799439011'' s')
        \<and> status (studyPlan s' ! 0) = ''completed'' \<and> status (studyPlan s' ! 1) = ''in-progress''
        \<and> currentTopicIndex s' = 1
        \<and> messages s' = [\<lparr>role = ''assistant'', content = manual_transition_msg ''A'' ''B''\<rparr>])
   \<and> (\<exists>s'. set_topic_status (demo_world (demo_session (demo_topics ''pending'' ''in-progress'' ''completed'') 1))
             (demo_topic_call ''0'' ''completed'')
            = (json (SessionDoc (Some s')),
               save (demo_world (demo_session (demo_topics ''pending'' ''in-progress'' ''completed'') 1)) ''507f1f77bcf86cd799439011'' s')
        \<and> status (studyPlan s' ! 0) = ''completed'' \<and> status (studyPlan s' ! 1) = ''in-progress''
        \<and> currentTopicIndex s' = 1 \<and> messages s' = [])
   \<and> (\<exists>s'. set_topic_status (demo_world (demo_session (demo_topics ''pending'' ''in-progress'' ''completed'') 1))
             (demo_topic_call ''1'' ''completed'')
            = (json (SessionDoc (Some s')),
               save (demo_world (demo_session (demo_topics ''pending'' ''in-progress'' ''completed'') 1)) ''507f1f77bcf86cd799439011'' s')
        \<and> status (studyPlan s' ! 1) = ''completed'' \<and> status (studyPlan s' ! 2) = ''completed''
        \<and> currentTopicIndex s' = 1 \<and> messages s' = [])
   \<and> (\<exists>s'. set_topic_status (demo_world (demo_session (demo_topics ''completed'' ''completed'' ''in-progress'') 2))
             (demo_topic_call ''2'' ''completed'')
            = (json (SessionDoc (Some s')),
               save (demo_world (demo_session (demo_topics ''completed'' ''completed'' ''in-progress'') 2)) ''507f1f77bcf86cd799439011'' s')
        \<and> status (studyPlan s' ! 2) = ''completed'' \<and> currentTopicIndex s' = 2
        \<and> messages s' = [\<lparr>role = ''assistant'', content = manual_complete_msg\<rparr>])"
proof -
  note ev = numeral_2_eq_2 demo_topic_call_simps findOne_demo parseInt_0 parseInt_1 parseInt_2
    demo_session_simps demo_topics_def
  have a: "\<exists>s'. set_topic_status (demo_world (demo_session (demo_topics ''in-progress'' ''pending'' ''pending'') 0))
             (demo_topic_call ''0'' ''completed'')
            = (json (SessionDoc (Some s')),
               save (demo_world (demo_session (demo_topics ''in-progress'' ''pending'' ''pending'') 0)) ''507f1f77bcf86cd799439011'' s')
        \<and> status (studyPlan s' ! 0) = ''completed'' \<and> status (studyPlan s' ! 1) = ''in-progress''
        \<and> currentTopicIndex s' = 1
        \<and> messages s' = [\<lparr>role = ''assistant'', content = manual_transition_msg ''A'' ''B''\<rparr>]"
    using set_topic_status_completed [of "demo_topic_call ''0'' ''completed''"
        "demo_world (demo_session (demo_topics ''in-progress'' ''pending'' ''pending'') 0)"
        "demo_session (demo_topics ''in-progress'' ''pending'' ''pending'') 0" 0]
    by (auto simp add: ev)
  have b: "\<exists>s'. set_topic_status (demo_world (demo_session (demo_topics ''pending'' ''in-progress'' ''completed'') 1))
             (demo_topic_call ''0'' ''completed'')
            = (json (SessionDoc (Some s')),
               save (demo_world (demo_session (demo_topics ''pending'' ''in-progress'' ''completed'') 1)) ''507f1f77bcf86cd799439011'' s')
        \<and> status (studyPlan s' ! 0) = ''completed'' \<and> status (studyPlan s' ! 1) = ''in-progress''
        \<and> currentTopicIndex s' = 1 \<and> messages s' = []"
    using set_topic_status_completed [of "demo_topic_call ''0'' ''completed''"
        "demo_world (demo_session (demo_topics ''pending'' ''in-progress'' ''completed'') 1)"
        "demo_session (demo_topics ''pending'' ''in-progress'' ''completed'') 1" 0]
    by (auto simp add: ev)
  have c: "\<exists>s'. set_topic_status (demo_world (demo_session (demo_topics ''pending'' ''in-progress'' ''completed'') 1))
             (demo_topic_call ''1'' ''completed'')
            = (json (SessionDoc (Some s')),
               save (demo_world (demo_session (demo_topics ''pending'' ''in-progress'' ''completed'') 1)) ''507f1f77bcf86cd799439011'' s')
        \<and> status (studyPlan s' ! 1) = ''completed'' \<and> status (studyPlan s' ! 2) = ''completed''
        \<and> currentTopicIndex s' = 1 \<and> messages s' = []"
    using set_topic_status_completed [of "demo_topic_call ''1'' ''completed''"
        "demo_world (demo_session (demo_topics ''pending'' ''in-progress'' ''completed'') 1)"
        "demo_session (demo_topics ''pending'' ''in-progress'' ''completed'') 1" 1]
    by (auto simp add: ev)
  have d: "\<exists>s'. set_topic_status (demo_world (demo_session (demo_topics ''completed'' ''completed'' ''in-progress'') 2))
             (demo_topic_call ''2'' ''completed'')
            = (json (SessionDoc (Some s')),
               save (demo_world (demo_session (demo_topics ''completed'' ''completed'' ''in-progress'') 2)) ''507f1f77bcf86cd799439011'' s')
        \<and> status (studyPlan s' ! 2) = ''completed'' \<and> currentTopicIndex s' = 2
        \<and> messages s' = [\<lparr>role = ''assistant'', content = manual_complete_msg\<rparr>]"
    using set_topic_status_completed [of "demo_topic_call ''2'' ''completed''"
        "demo_world (demo_session (demo_topics ''completed'' ''completed'' ''in-progress'') 2)"
        "demo_session (demo_topics ''completed'' ''completed'' ''in-progress'') 2" 2]
    by (auto simp add: ev)
  from a b c d show ?thesis by blast
qed

section \<open>Chat: automatic topic completion\<close>

lemma chat_ok:
  assumes "truthy (c_message c)" and "truthy (c_sessionId c)"
    and "c_find_err c = None" and "c_save1_err c = None" and "c_save2_err c = None"
    and "findOne W (the (c_sessionId c)) (c_userId c) = Some s"
    and "c_chat c = Inr reply"
  shows "chat W c =
     (json (ChatReply (r_response reply) (r_topic_completed reply)),
      save W (the (c_sessionId c))
        (auto_advance
           (push_message (push_message s ''user'' (the (c_message c))) ''assistant'' (r_response reply))
           (current_topic (push_message s ''user'' (the (c_message c))))
           (r_topic_completed reply)))"
  using assms by (simp add: chat_def Let_def save_save current_topic_push)

text \<open>
  C1. A chat call on an existing session, with the store answering and the gateway
  replying with \<open>topic_completed = true\<close>, succeeds and persists a session \<open>s'\<close>, which
  is what the store then holds under the session's id. Let \<open>base\<close> be the old transcript
  followed by the user's message and the assistant's reply. If the cursor is the index
  \<open>i\<close> of a topic that is not \<open>completed\<close>, then in \<open>s'\<close> topic \<open>i\<close> is that topic with
  status \<open>completed\<close> and the topics other than \<open>i\<close> and \<open>i+1\<close> are unchanged; if topic
  \<open>i+1\<close> exists it is \<open>in-progress\<close>, the cursor is \<open>i+1\<close> and the transcript is \<open>base\<close>
  followed by one assistant entry, whose text contains the name of the completed topic
  and then the name of the new topic, each between \<^verbatim>\<open>**\<close> marks; if it does not exist
  the cursor stays and the transcript is \<open>base\<close> followed by the congratulation on
  completing the entire study plan. If the cursor addresses no topic, or a topic already
  \<open>completed\<close>, the plan and the cursor are unchanged and the transcript is \<open>base\<close>.
\<close>

theorem chat_topic_completed:
  assumes "truthy (c_message c)" and "truthy (c_sessionId c)"
    and "c_find_err c = None" and "c_save1_err c = None" and "c_save2_err c = None"
    and "findOne W (the (c_sessionId c)) (c_userId c) = Some s"
    and "c_chat c = Inr reply" and "r_topic_completed reply"
    and "base = messages s @ [\<lparr>role = ''user'', content = the (c_message c)\<rparr>,
                              \<lparr>role = ''assistant'', content = r_response reply\<rparr>]"
  shows "\<exists>s'. chat W c = (json (ChatReply (r_response reply) True), save W (the (c_sessionId c)) s')
     \<and> sessions (snd (chat W c)) (the (c_sessionId c)) = Some s'
     \<and> length (studyPlan s') = length (studyPlan s)
     \<and> (\<forall>i. currentTopicIndex s = int i \<and> i < length (studyPlan s)
              \<and> status (studyPlan s ! i) \<noteq> ''completed'' \<longrightarrow>
          studyPlan s' ! i = (studyPlan s ! i)\<lparr>status := ''completed''\<rparr>
          \<and> (\<forall>j < length (studyPlan s). j \<noteq> i \<and> j \<noteq> Suc i \<longrightarrow> studyPlan s' ! j = studyPlan s ! j)
          \<and> (Suc i < length (studyPlan s) \<longrightarrow>
               studyPlan s' ! Suc i = (studyPlan s ! Suc i)\<lparr>status := ''in-progress''\<rparr>
               \<and> currentTopicIndex s' = int (Suc i)
               \<and> messages s' = base @
                    [\<lparr>role = ''assistant'',
                      content =
                        emoji_party @ '' **Topic Completed!**'' @ nl @ nl @
                        ''You've demonstrated a good understanding of **'' @ topic (studyPlan s ! i) @
                        ''**.'' @ nl @ ''Let's move on to the next topic: **'' @
                        topic (studyPlan s ! Suc i) @ ''**.''\<rparr>])
          \<and> (\<not> Suc i < length (studyPlan s) \<longrightarrow>
               currentTopicIndex s' = currentTopicIndex s
               \<and> messages s' = base @ [\<lparr>role = ''assistant'', content =
                        emoji_trophy @ '' **Congratulations!**'' @ nl @ nl @
                        ''You have completed the entire study plan for this document!''\<rparr>]))
     \<and> (currentTopicIndex s < 0 \<or> int (length (studyPlan s)) \<le> currentTopicIndex s
          \<or> status (studyPlan s ! nat (currentTopicIndex s)) = ''completed'' \<longrightarrow>
          studyPlan s' = studyPlan s \<and> currentTopicIndex s' = currentTopicIndex s
          \<and> messages s' = base)"
proof -
  let ?u = "push_message s ''user'' (the (c_message c))"
  let ?a = "push_message ?u ''assistant'' (r_response reply)"
  let ?s' = "auto_advance ?a (current_topic s) True"
  have r: "chat W c = (json (ChatReply (r_response reply) True), save W (the (c_sessionId c)) ?s')"
    using chat_ok [OF assms(1-7)] assms(8) by (simp add: current_topic_push)
  have ma: "messages ?a = base" "studyPlan ?a = studyPlan s" "currentTopicIndex ?a = currentTopicIndex s"
    by (simp_all add: push_message_def assms(9))
  have 1: "length (studyPlan ?s') = length (studyPlan s)"
    by (simp add: auto_advance_def set_status_def push_message_def Let_def current_topic_push split: option.splits)
  have 2: "studyPlan ?s' ! i = (studyPlan s ! i)\<lparr>status := ''completed''\<rparr>
          \<and> (\<forall>j < length (studyPlan s). j \<noteq> i \<and> j \<noteq> Suc i \<longrightarrow> studyPlan ?s' ! j = studyPlan s ! j)
          \<and> (Suc i < length (studyPlan s) \<longrightarrow>
               studyPlan ?s' ! Suc i = (studyPlan s ! Suc i)\<lparr>status := ''in-progress''\<rparr>
               \<and> currentTopicIndex ?s' = int (Suc i)
               \<and> messages ?s' = base @
                    [\<lparr>role = ''assistant'',
                      content =
                        emoji_party @ '' **Topic Completed!**'' @ nl @ nl @
                        ''You've demonstrated a good understanding of **'' @ topic (studyPlan s ! i) @
                        ''**.'' @ nl @ ''Let's move on to the next topic: **'' @
                        topic (studyPlan s ! Suc i) @ ''**.''\<rparr>])
          \<and> (\<not> Suc i < length (studyPlan s) \<longrightarrow>
               currentTopicIndex ?s' = currentTopicIndex s
               \<and> messages ?s' = base @ [\<lparr>role = ''assistant'', content =
                        emoji_trophy @ '' **Congratulations!**'' @ nl @ nl @
                        ''You have completed the entire study plan for this document!''\<rparr>])"
    if h: "currentTopicIndex s = int i" "i < length (studyPlan s)" "status (studyPlan s ! i) \<noteq> ''completed''"
    for i
  proof -
    have ct: "current_topic s = Some (studyPlan s ! i)"
      using h by (simp add: current_topic_Some)
    show ?thesis
      using h
      by (simp add: ct auto_advance_def set_status_def push_message_def Let_def assms(9)
            auto_transition_msg_def auto_complete_msg_def)
  qed
  have 3: "studyPlan ?s' = studyPlan s \<and> currentTopicIndex ?s' = currentTopicIndex s \<and> messages ?s' = base"
    if h: "currentTopicIndex s < 0 \<or> int (length (studyPlan s)) \<le> currentTopicIndex s
          \<or> status (studyPlan s ! nat (currentTopicIndex s)) = ''completed''"
  proof (cases "current_topic s")
    case None
    then show ?thesis by (simp add: auto_advance_def ma)
  next
    case (Some ct)
    then have "ct = studyPlan s ! nat (currentTopicIndex s)"
      and "\<not> (currentTopicIndex s < 0 \<or> int (length (studyPlan s)) \<le> currentTopicIndex s)"
      by (auto simp add: current_topic_def split: if_splits)
    with h have "status ct = ''completed''" by simp
    with Some show ?thesis by (simp add: auto_advance_def ma)
  qed
  have l: "sessions (snd (chat W c)) (the (c_sessionId c)) = Some ?s'"
    using r by (simp add: save_def)
  from r l 1 2 3 show ?thesis by blast
qed

theorem chat_topic_completed_witness:
  "(\<exists>s'. chat (demo_world (demo_session (demo_topics ''in-progress'' ''pending'' ''pending'') 0))
             (demo_chat_call (Inr \<lparr>r_response = ''ok'', r_topic_completed = True\<rparr>))
            = (json (ChatReply ''ok'' True),
               save (demo_world (demo_session (demo_topics ''in-progress'' ''pending'' ''pending'') 0)) ''507f1f77bcf86cd799439011'' s')
        \<and> status (studyPlan s' ! 0) = ''completed'' \<and> status (studyPlan s' ! 1) = ''in-progress''
        \<and> studyPlan s' ! 2 = \<lparr>topic = ''C'', description = ''c'', status = ''pending''\<rparr>
        \<and> currentTopicIndex s' = 1
        \<and> messages s' = [\<lparr>role = ''user'', content = ''hi''\<rparr>, \<lparr>role = ''assistant'', content = ''ok''\<rparr>,
                          \<lparr>role = ''assistant'', content = auto_transition_msg ''A'' ''B''\<rparr>])
   \<and> (\<exists>s'. chat (demo_world (demo_session (demo_topics ''completed'' ''completed'' ''in-progress'') 2))
             (demo_chat_call (Inr \<lparr>r_response = ''ok'', r_topic_completed = True\<rparr>))
            = (json (ChatReply ''ok'' True),
               save (demo_world (demo_session (demo_topics ''completed'' ''completed'' ''in-progress'') 2)) ''507f1f77bcf86cd799439011'' s')
        \<and> status (studyPlan s' ! 2) = ''completed''
        \<and> currentTopicIndex s' = 2
        \<and> messages s' = [\<lparr>role = ''user'', content = ''hi''\<rparr>, \<lparr>role = ''assistant'', content = ''ok''\<rparr>,
                          \<lparr>role = ''assistant'', content = auto_complete_msg\<rparr>])
   \<and> (\<exists>s'. chat (demo_world (demo_session (demo_topics ''completed'' ''completed'' ''completed'') 2))
             (demo_chat_call (Inr \<lparr>r_response = ''ok'', r_topic_completed = True\<rparr>))
            = (json (ChatReply ''ok'' True),
               save (demo_world (demo_session (demo_topics ''completed'' ''completed'' ''completed'') 2)) ''507f1f77bcf86cd799439011'' s')
        \<and> studyPlan s' = demo_topics ''completed'' ''completed'' ''completed''
        \<and> currentTopicIndex s' = 2
        \<and> messages s' = [\<lparr>role = ''user'', content = ''hi''\<rparr>, \<lparr>role = ''assistant'', content = ''ok''\<rparr>])
   \<and> (\<exists>s'. chat (demo_world (demo_session [] (- 1)))
             (demo_chat_call (Inr \<lparr>r_response = ''ok'', r_topic_completed = True\<rparr>))
            = (json (ChatReply ''ok'' True), save (demo_world (demo_session [] (- 1))) ''507f1f77bcf86cd799439011'' s')
        \<and> studyPlan s' = []
        \<and> currentTopicIndex s' = - 1
        \<and> messages s' = [\<lparr>role = ''user'', content = ''hi''\<rparr>, \<lparr>role = ''assistant'', content = ''ok''\<rparr>])"
proof -
  note ev = numeral_2_eq_2 demo_chat_call_simps findOne_demo demo_session_simps demo_topics_def truthy_def
    auto_transition_msg_def auto_complete_msg_def
  let ?c = "demo_chat_call (Inr \<lparr>r_response = ''ok'', r_topic_completed = True\<rparr>)"
  let ?base = "[\<lparr>role = ''user'', content = ''hi''\<rparr>, \<lparr>role = ''assistant'', content = ''ok''\<rparr>]"
  have a: "\<exists>s'. chat (demo_world (demo_session (demo_topics ''in-progress'' ''pending'' ''pending'') 0)) ?c
            = (json (ChatReply ''ok'' True),
               save (demo_world (demo_session (demo_topics ''in-progress'' ''pending'' ''pending'') 0)) ''507f1f77bcf86cd799439011'' s')
        \<and> status (studyPlan s' ! 0) = ''completed'' \<and> status (studyPlan s' ! 1) = ''in-progress''
        \<and> studyPlan s' ! 2 = \<lparr>topic = ''C'', description = ''c'', status = ''pending''\<rparr>
        \<and> currentTopicIndex s' = 1
        \<and> messages s' = ?base @ [\<lparr>role = ''assistant'', content = auto_transition_msg ''A'' ''B''\<rparr>]"
    using chat_topic_completed [of ?c
        "demo_world (demo_session (demo_topics ''in-progress'' ''pending'' ''pending'') 0)"
        "demo_session (demo_topics ''in-progress'' ''pending'' ''pending'') 0"
        "\<lparr>r_response = ''ok'', r_topic_completed = True\<rparr>" ?base]
    by (auto simp add: ev)
  have b: "\<exists>s'. chat (demo_world (demo_session (demo_topics ''completed'' ''completed'' ''in-progress'') 2)) ?c
            = (json (ChatReply ''ok'' True),
               save (demo_world (demo_session (demo_topics ''completed'' ''completed'' ''in-progress'') 2)) ''507f1f77bcf86cd799439011'' s')
        \<and> status (studyPlan s' ! 2) = ''completed''
        \<and> currentTopicIndex s' = 2
        \<and> messages s' = ?base @ [\<lparr>role = ''assistant'', content = auto_complete_msg\<rparr>]"
    using chat_topic_completed [of ?c
        "demo_world (demo_session (demo_topics ''completed'' ''completed'' ''in-progress'') 2)"
        "demo_session (demo_topics ''completed'' ''completed'' ''in-progress'') 2"
        "\<lparr>r_response = ''ok'', r_topic_completed = True\<rparr>" ?base]
    by (auto simp add: ev)
  have c: "\<exists>s'. chat (demo_world (demo_session (demo_topics ''completed'' ''completed'' ''completed'') 2)) ?c
            = (json (ChatReply ''ok'' True),
               save (demo_world (demo_session (demo_topics ''completed'' ''completed'' ''completed'') 2)) ''507f1f77bcf86cd799439011'' s')
        \<and> studyPlan s' = demo_topics ''completed'' ''completed'' ''completed''
        \<and> currentTopicIndex s' = 2
        \<and> messages s' = ?base"
    using chat_topic_completed [of ?c
        "demo_world (demo_session (demo_topics ''completed'' ''completed'' ''completed'') 2)"
        "demo_session (demo_topics ''completed'' ''completed'' ''completed'') 2"
        "\<lparr>r_response = ''ok'', r_topic_completed = True\<rparr>" ?base]
    by (auto simp add: ev)
  have d: "\<exists>s'. chat (demo_world (demo_session [] (- 1))) ?c
            = (json (ChatReply ''ok'' True), save (demo_world (demo_session [] (- 1))) ''507f1f77bcf86cd799439011'' s')
        \<and> studyPlan s' = []
        \<and> currentTopicIndex s' = - 1
        \<and> messages s' = ?base"
    using chat_topic_completed [of ?c "demo_world (demo_session [] (- 1))" "demo_session [] (- 1)"
        "\<lparr>r_response = ''ok'', r_topic_completed = True\<rparr>" ?base]
    by (auto simp add: ev)
  from a b c d show ?thesis by simp
qed

section \<open>Chat: gateway failure\<close>

text \<open>
  C6. When the chat call to the gateway fails on an existing session (the store
  answering), the route answers with the failure (the upstream status, or 500), and what
  is persisted is the session with the user's message appended and nothing else: no
  assistant entry, the study plan and the cursor unchanged.
\<close>

theorem chat_gateway_failure:
  assumes "truthy (c_message c)" and "truthy (c_sessionId c)"
    and "c_find_err c = None" and "c_save1_err c = None"
    and "findOne W (the (c_sessionId c)) (c_userId c) = Some s"
    and "c_chat c = Inl e"
  shows "\<exists>s'. chat W c = (chat_failed e, save W (the (c_sessionId c)) s')
     \<and> messages s' = messages s @ [\<lparr>role = ''user'', content = the (c_message c)\<rparr>]
     \<and> studyPlan s' = studyPlan s
     \<and> currentTopicIndex s' = currentTopicIndex s
     \<and> code (chat_failed e) = (case err_status e of None \<Rightarrow> 500 | Some n \<Rightarrow> if n = 0 then 500 else n)"
proof -
  let ?u = "push_message s ''user'' (the (c_message c))"
  have "chat W c = (chat_failed e, save W (the (c_sessionId c)) ?u)"
    using assms by (simp add: chat_def Let_def)
  moreover have "messages ?u = messages s @ [\<lparr>role = ''user'', content = the (c_message c)\<rparr>]"
    "studyPlan ?u = studyPlan s" "currentTopicIndex ?u = currentTopicIndex s"
    by (simp_all add: push_message_def)
  moreover have "code (chat_failed e) = (case err_status e of None \<Rightarrow> 500 | Some n \<Rightarrow> if n = 0 then 500 else n)"
    by (simp add: chat_failed_def status_json_def status_or_def)
  ultimately show ?thesis by blast
qed

theorem chat_gateway_failure_witness:
  "\<exists>s'. chat (demo_world (demo_session (demo_topics ''in-progress'' ''pending'' ''pending'') 0))
            (demo_chat_call (Inl \<lparr>err_message = ''timeout'', err_status = None, err_data_error = None\<rparr>))
          = (status_json 500 (Message ''timeout''),
             save (demo_world (demo_session (demo_topics ''in-progress'' ''pending'' ''pending'') 0)) ''507f1f77bcf86cd799439011'' s')
      \<and> messages s' = [\<lparr>role = ''user'', content = ''hi''\<rparr>]
      \<and> studyPlan s' = demo_topics ''in-progress'' ''pending'' ''pending''
      \<and> currentTopicIndex s' = 0"
  using chat_gateway_failure [of
      "demo_chat_call (Inl \<lparr>err_message = ''timeout'', err_status = None, err_data_error = None\<rparr>)"
      "demo_world (demo_session (demo_topics ''in-progress'' ''pending'' ''pending'') 0)"
      "demo_session (demo_topics ''in-progress'' ''pending'' ''pending'') 0"
      "\<lparr>err_message = ''timeout'', err_status = None, err_data_error = None\<rparr>"]
  by (auto simp add: demo_chat_call_simps findOne_demo demo_session_simps truthy_def
        chat_failed_def status_or_def or_else_def)

section \<open>Plan generation\<close>

lemma demo_plan_call_simps:
  "p_userId (demo_plan_call r) = ''65a1b2c3d4e5f60718293a4b''"
  "p_sessionId (demo_plan_call r) = ''507f1f77bcf86cd799439011''"
  "p_find_err (demo_plan_call r) = None"
  "p_plan (demo_plan_call r) = r"
  "p_save_err (demo_plan_call r) = None"
  by (simp_all add: demo_plan_call_def)

lemma findOne_save: "userId s = uid \<Longrightarrow> findOne (save W k s) k uid = Some s"
  by (simp add: findOne_def save_def)

lemma findOne_userId: "findOne W k uid = Some s \<Longrightarrow> userId s = uid"
  by (auto simp add: findOne_def split: option.splits if_splits)

lemma findOne_sessions: "findOne W k uid = Some s \<Longrightarrow> sessions W k = Some s"
  by (auto simp add: findOne_def split: option.splits if_splits)

lemma generate_plan_ok:
  assumes "p_find_err c = None" and "p_save_err c = None"
    and "findOne W (p_sessionId c) (p_userId c) = Some s"
    and "p_plan c = Inr items"
  shows "generate_plan W c =
           (json (SessionDoc (Some (start_plan (s\<lparr>studyPlan := init_plan items\<rparr>)))),
            save W (p_sessionId c) (start_plan (s\<lparr>studyPlan := init_plan items\<rparr>)))"
  using assms by (simp add: generate_plan_def Let_def)

lemma start_plan_fresh:
  "fresh_plan_of items (studyPlan (start_plan (s\<lparr>studyPlan := init_plan items\<rparr>)))"
  by (cases items)
     (auto simp add: fresh_plan_of_def start_plan_def init_plan_def set_status_def push_message_def
        Let_def nth_Cons split: nat.splits)

lemma start_plan_userId: "userId (start_plan s) = userId s"
  by (simp add: start_plan_def set_status_def push_message_def Let_def)

text \<open>
  C5. A generate-plan call on an existing session, with the store answering and the
  gateway returning a topic list, succeeds and persists a session \<open>s'\<close> whose plan is the
  fresh plan of the returned items and of nothing else: the same length, topic \<open>j\<close> is
  item \<open>j\<close>, the first topic \<open>in-progress\<close> and the others \<open>pending\<close>. If the list is not
  empty the cursor is 0 and the transcript has gained exactly the announcement entry of
  the first topic; if it is empty the cursor and the transcript are unchanged. A second
  generate-plan on the same session yields the fresh plan of the second answer alone.
\<close>

theorem generate_plan_replaces_plan:
  assumes "p_find_err c = None" and "p_save_err c = None"
    and "findOne W (p_sessionId c) (p_userId c) = Some s"
    and "p_plan c = Inr items"
  shows "\<exists>s'. generate_plan W c = (json (SessionDoc (Some s')), save W (p_sessionId c) s')
     \<and> fresh_plan_of items (studyPlan s')
     \<and> (items \<noteq> [] \<longrightarrow>
          currentTopicIndex s' = 0
          \<and> messages s' = messages s @
               [\<lparr>role = ''assistant'',
                 content = plan_generated_msg (item_topic (items ! 0)) (item_description (items ! 0))\<rparr>])
     \<and> (items = [] \<longrightarrow> currentTopicIndex s' = currentTopicIndex s \<and> messages s' = messages s)
     \<and> (\<forall>c2 items2.
          p_find_err c2 = None \<and> p_save_err c2 = None \<and> p_sessionId c2 = p_sessionId c
          \<and> p_userId c2 = p_userId c \<and> p_plan c2 = Inr items2 \<longrightarrow>
          (\<exists>s''. generate_plan (save W (p_sessionId c) s') c2
                   = (json (SessionDoc (Some s'')), save W (p_sessionId c) s'')
                \<and> fresh_plan_of items2 (studyPlan s'')))"
proof -
  let ?s' = "start_plan (s\<lparr>studyPlan := init_plan items\<rparr>)"
  have r: "generate_plan W c = (json (SessionDoc (Some ?s')), save W (p_sessionId c) ?s')"
    by (rule generate_plan_ok [OF assms])
  have 1: "fresh_plan_of items (studyPlan ?s')"
    by (rule start_plan_fresh)
  have 2: "currentTopicIndex ?s' = 0
          \<and> messages ?s' = messages s @
               [\<lparr>role = ''assistant'',
                 content = plan_generated_msg (item_topic (items ! 0)) (item_description (items ! 0))\<rparr>]"
    if "items \<noteq> []"
    using that
    by (cases items)
       (simp_all add: start_plan_def init_plan_def set_status_def push_message_def Let_def)
  have 3: "currentTopicIndex ?s' = currentTopicIndex s \<and> messages ?s' = messages s" if "items = []"
    using that by (simp add: start_plan_def init_plan_def)
  have 4: "\<exists>s''. generate_plan (save W (p_sessionId c) ?s') c2
                   = (json (SessionDoc (Some s'')), save W (p_sessionId c) s'')
                \<and> fresh_plan_of items2 (studyPlan s'')"
    if h: "p_find_err c2 = None \<and> p_save_err c2 = None \<and> p_sessionId c2 = p_sessionId c
          \<and> p_userId c2 = p_userId c \<and> p_plan c2 = Inr items2" for c2 items2
  proof -
    have u: "userId ?s' = p_userId c"
      using findOne_userId [OF assms(3)] by (simp add: start_plan_userId)
    have f: "findOne (save W (p_sessionId c) ?s') (p_sessionId c2) (p_userId c2) = Some ?s'"
      using h u by (simp add: findOne_save)
    have "generate_plan (save W (p_sessionId c) ?s') c2 =
           (json (SessionDoc (Some (start_plan (?s'\<lparr>studyPlan := init_plan items2\<rparr>)))),
            save (save W (p_sessionId c) ?s') (p_sessionId c2) (start_plan (?s'\<lparr>studyPlan := init_plan items2\<rparr>)))"
      using h f by (intro generate_plan_ok) simp_all
    then show ?thesis
      using h start_plan_fresh [of items2 ?s'] by (auto simp add: save_save)
  qed
  from r 1 2 3 4 show ?thesis by blast
qed

lemma fresh_plan_of_nth:
  "fresh_plan_of items plan \<Longrightarrow> j < length items \<Longrightarrow>
     plan ! j = \<lparr>topic = item_topic (items ! j), description = item_description (items ! j),
                 status = (if j = 0 then ''in-progress'' else ''pending'')\<rparr>"
  by (simp add: fresh_plan_of_def)

lemma fresh_plan_of_length: "fresh_plan_of items plan \<Longrightarrow> length plan = length items"
  by (simp add: fresh_plan_of_def)

theorem generate_plan_replaces_plan_witness:
  "(\<exists>s'. generate_plan (demo_world (demo_session (demo_topics ''completed'' ''in-progress'' ''pending'') 1))
             (demo_plan_call (Inr demo_items))
            = (json (SessionDoc (Some s')),
               save (demo_world (demo_session (demo_topics ''completed'' ''in-progress'' ''pending'') 1)) ''507f1f77bcf86cd799439011'' s')
        \<and> length (studyPlan s') = 2
        \<and> studyPlan s' ! 0 = \<lparr>topic = ''X'', description = ''x'', status = ''in-progress''\<rparr>
        \<and> studyPlan s' ! 1 = \<lparr>topic = ''Y'', description = ''y'', status = ''pending''\<rparr>
        \<and> currentTopicIndex s' = 0
        \<and> messages s' = [\<lparr>role = ''assistant'', content = plan_generated_msg ''X'' ''x''\<rparr>]
        \<and> (\<exists>s''. generate_plan
                    (save (demo_world (demo_session (demo_topics ''completed'' ''in-progress'' ''pending'') 1)) ''507f1f77bcf86cd799439011'' s')
                    (demo_plan_call (Inr [\<lparr>item_topic = ''Z'', item_description = ''z''\<rparr>]))
                 = (json (SessionDoc (Some s'')),
                    save (demo_world (demo_session (demo_topics ''completed'' ''in-progress'' ''pending'') 1)) ''507f1f77bcf86cd799439011'' s'')
              \<and> length (studyPlan s'') = 1
              \<and> studyPlan s'' ! 0 = \<lparr>topic = ''Z'', description = ''z'', status = ''in-progress''\<rparr>))
   \<and> (\<exists>s'. generate_plan (demo_world (demo_session (demo_topics ''completed'' ''in-progress'' ''pending'') 1))
             (demo_plan_call (Inr []))
            = (json (SessionDoc (Some s')),
               save (demo_world (demo_session (demo_topics ''completed'' ''in-progress'' ''pending'') 1)) ''507f1f77bcf86cd799439011'' s')
        \<and> studyPlan s' = [] \<and> currentTopicIndex s' = 1 \<and> messages s' = [])"
proof -
  let ?s = "demo_session (demo_topics ''completed'' ''in-progress'' ''pending'') 1"
  let ?W = "demo_world ?s"
  let ?z = "[\<lparr>item_topic = ''Z'', item_description = ''z''\<rparr>]"
  note ev = demo_plan_call_simps findOne_demo demo_session_simps
  obtain s' where g: "generate_plan ?W (demo_plan_call (Inr demo_items))
            = (json (SessionDoc (Some s')), save ?W ''507f1f77bcf86cd799439011'' s')"
    and f: "fresh_plan_of demo_items (studyPlan s')"
    and m: "currentTopicIndex s' = 0"
           "messages s' = [\<lparr>role = ''assistant'', content = plan_generated_msg ''X'' ''x''\<rparr>]"
    and again: "\<exists>s''. generate_plan (save ?W ''507f1f77bcf86cd799439011'' s') (demo_plan_call (Inr ?z))
                 = (json (SessionDoc (Some s'')), save ?W ''507f1f77bcf86cd799439011'' s'')
              \<and> fresh_plan_of ?z (studyPlan s'')"
    using generate_plan_replaces_plan [of "demo_plan_call (Inr demo_items)" ?W ?s demo_items]
    by (auto simp add: ev demo_items_def)
  obtain s'' where g2: "generate_plan (save ?W ''507f1f77bcf86cd799439011'' s') (demo_plan_call (Inr ?z))
                 = (json (SessionDoc (Some s'')), save ?W ''507f1f77bcf86cd799439011'' s'')"
    and f2: "fresh_plan_of ?z (studyPlan s'')"
    using again by blast
  have a: "length (studyPlan s') = 2"
    "studyPlan s' ! 0 = \<lparr>topic = ''X'', description = ''x'', status = ''in-progress''\<rparr>"
    "studyPlan s' ! 1 = \<lparr>topic = ''Y'', description = ''y'', status = ''pending''\<rparr>"
    using fresh_plan_of_length [OF f] fresh_plan_of_nth [OF f, of 0] fresh_plan_of_nth [OF f, of 1]
    by (simp_all add: demo_items_def)
  have b: "length (studyPlan s'') = 1"
    "studyPlan s'' ! 0 = \<lparr>topic = ''Z'', description = ''z'', status = ''in-progress''\<rparr>"
    using fresh_plan_of_length [OF f2] fresh_plan_of_nth [OF f2, of 0] by simp_all
  obtain s0 where g0: "generate_plan ?W (demo_plan_call (Inr []))
            = (json (SessionDoc (Some s0)), save ?W ''507f1f77bcf86cd799439011'' s0)"
    and f0: "fresh_plan_of [] (studyPlan s0)"
    and m0: "currentTopicIndex s0 = 1" "messages s0 = []"
    using generate_plan_replaces_plan [of "demo_plan_call (Inr [])" ?W ?s "[]"]
    by (auto simp add: ev)
  have c: "studyPlan s0 = []"
    using fresh_plan_of_length [OF f0] by simp
  from g m a g2 b g0 c m0 show ?thesis by blast
qed

section \<open>Learning level\<close>

lemma demo_level_call_simps:
  "l_userId (demo_level_call sid lvl) = ''65a1b2c3d4e5f60718293a4b''"
  "l_sessionId (demo_level_call sid lvl) = sid"
  "l_level (demo_level_call sid lvl) = lvl"
  "l_update_err (demo_level_call sid lvl) = None"
  by (simp_all add: demo_level_call_def)

text \<open>
  C10, as amended. A set-level call with a valid level on a session id that the caller
  does not own or that does not exist does not fail with not-found: when the store call
  returns, the answer is 200 with a \<open>null\<close> session and the world is as it was. A call
  with an invalid level is answered 400 before any store call, a call with a valid level
  whose store call throws is answered 500, both leaving the world as it was; and the
  answer is other than 200 exactly in these two cases.
\<close>

theorem set_level_responses:
  "(l_level c \<in> {''beginner'', ''intermediate'', ''advanced''} \<and> l_update_err c = None
      \<and> findOne W (l_sessionId c) (l_userId c) = None
      \<longrightarrow> set_level W c = (json (SessionDoc None), W))
   \<and> (l_level c \<notin> {''beginner'', ''intermediate'', ''advanced''}
      \<longrightarrow> set_level W c = (status_json 400 (Message ''Invalid level''), W))
   \<and> (l_level c \<in> {''beginner'', ''intermediate'', ''advanced''} \<and> l_update_err c \<noteq> None
      \<longrightarrow> set_level W c = (status_json 500 (Message ''Failed to update level''), W))
   \<and> (code (fst (set_level W c)) \<noteq> 200
      \<longleftrightarrow> l_level c \<notin> {''beginner'', ''intermediate'', ''advanced''} \<or> l_update_err c \<noteq> None)"
  by (auto simp add: set_level_def json_def status_json_def Let_def split: option.splits)

theorem set_level_responses_witness:
  "set_level (demo_world (demo_session [] (- 1))) (demo_level_call ''507f191e810c19729de860ea'' ''advanced'')
     = (json (SessionDoc None), demo_world (demo_session [] (- 1)))
   \<and> set_level (demo_world (demo_session [] (- 1))) (demo_level_call ''507f191e810c19729de860ea'' ''expert'')
     = (status_json 400 (Message ''Invalid level''), demo_world (demo_session [] (- 1)))
   \<and> set_level (demo_world (demo_session [] (- 1)))
       ((demo_level_call ''nope'' ''advanced'')
          \<lparr>l_update_err := Some \<lparr>err_message = ''Cast to ObjectId failed'', err_status = None,
                                  err_data_error = None\<rparr>\<rparr>)
     = (status_json 500 (Message ''Failed to update level''), demo_world (demo_session [] (- 1)))
   \<and> code (fst (set_level (demo_world (demo_session [] (- 1))) (demo_level_call ''507f1f77bcf86cd799439011'' ''advanced''))) = 200"
proof -
  let ?W = "demo_world (demo_session [] (- 1))"
  let ?e = "\<lparr>err_message = ''Cast to ObjectId failed'', err_status = None, err_data_error = None\<rparr>"
  have n: "findOne ?W ''507f191e810c19729de860ea'' ''65a1b2c3d4e5f60718293a4b'' = None"
    by (simp add: findOne_def demo_world_def)
  show ?thesis
    using set_level_responses [of "demo_level_call ''507f191e810c19729de860ea'' ''advanced''" ?W]
      set_level_responses [of "demo_level_call ''507f191e810c19729de860ea'' ''expert''" ?W]
      set_level_responses [of "(demo_level_call ''nope'' ''advanced'')\<lparr>l_update_err := Some ?e\<rparr>" ?W]
      set_level_responses [of "demo_level_call ''507f1f77bcf86cd799439011'' ''advanced''" ?W]
    by (simp add: demo_level_call_simps n status_json_def json_def)
qed

text \<open>
  C10, as stated, fails: a valid level does not exclude a failure response. With the
  malformed session id \<open>nope\<close> the store call throws while casting the id, and the route's
  catch answers 500.
\<close>

theorem set_level_store_failure_counterexample:
  "set_level (demo_world (demo_session [] (- 1)))
     \<lparr>l_userId = ''65a1b2c3d4e5f60718293a4b'', l_sessionId = ''nope'', l_level = ''advanced'',
      l_update_err = Some \<lparr>err_message = ''Cast to ObjectId failed'', err_status = None,
                            err_data_error = None\<rparr>\<rparr>
   = (status_json 500 (Message ''Failed to update level''), demo_world (demo_session [] (- 1)))"
  by (simp add: set_level_def)

section \<open>Upload: the temporary file\<close>

text \<open>
  C7. The temporary file of an upload is deleted only on the path where the session was
  saved. At the call below, whose ingest call throws, the route answers 500 and the file
  written for the request is still in the uploads directory; the same call with a
  successful ingest leaves the directory empty.
\<close>

theorem upload_failure_leaves_temp_file:
  "code (fst (upload_route demo_config empty_world
           (demo_upload_call None ''a.pdf'' ''bytes''
              (Inl \<lparr>err_message = ''ECONNREFUSED'', err_status = None, err_data_error = None\<rparr>)))) = 500
   \<and> tmp_files (snd (upload_route demo_config empty_world
           (demo_upload_call None ''a.pdf'' ''bytes''
              (Inl \<lparr>err_message = ''ECONNREFUSED'', err_status = None, err_data_error = None\<rparr>))))
       = {''uploads/tmp1''}
   \<and> tmp_files (snd (upload_route demo_config empty_world
           (demo_upload_call None ''a.pdf'' ''bytes'' (Inr \<lparr>i_cached = False, i_summary = None\<rparr>))))
       = {}"
  by (simp add: upload_route_def upload_def upload_try_def multer_single_def demo_upload_call_def
        empty_world_def status_json_def json_def save_def Let_def truthy_def)

section \<open>What each route can do to the store\<close>

lemma all_sessions_save: "all_sessions P W \<Longrightarrow> P s \<Longrightarrow> all_sessions P (save W k s)"
  by (simp add: all_sessions_def save_def)

lemma all_sessions_findOne: "all_sessions P W \<Longrightarrow> findOne W k uid = Some s \<Longrightarrow> P s"
  by (auto simp add: all_sessions_def dest: findOne_sessions)

lemma all_sessions_tmp: "all_sessions P (W\<lparr>tmp_files := T\<rparr>) = all_sessions P W"
  by (simp add: all_sessions_def)

lemma all_sessions_delete: "all_sessions P W \<Longrightarrow> all_sessions P (W\<lparr>sessions := (sessions W)(k := None)\<rparr>)"
  by (simp add: all_sessions_def)

lemma chat_preserves:
  assumes inv: "all_sessions P W"
    and push: "\<And>s r m. P s \<Longrightarrow> P (push_message s r m)"
    and auto_step: "\<And>s b. P s \<Longrightarrow> P (auto_advance s (current_topic s) b)"
  shows "all_sessions P (snd (chat W c))"
proof -
  have a2: "P (auto_advance (push_message (push_message s r1 m1) r2 m2)
                (current_topic (push_message s r1 m1)) b)" if "P s" for s r1 m1 r2 m2 b
    using auto_step [of "push_message (push_message s r1 m1) r2 m2" b] push [OF push [OF that]]
    by (simp add: current_topic_push)
  show ?thesis
    using inv
    by (auto simp add: chat_def Let_def split: option.splits sum.splits
          intro!: all_sessions_save push a2 dest: all_sessions_findOne)
qed

lemma generate_plan_preserves:
  assumes inv: "all_sessions P W"
    and plan: "\<And>s items. P s \<Longrightarrow> P (start_plan (s\<lparr>studyPlan := init_plan items\<rparr>))"
  shows "all_sessions P (snd (generate_plan W c))"
  using inv
  by (auto simp add: generate_plan_def Let_def split: option.splits sum.splits
        intro!: all_sessions_save plan dest: all_sessions_findOne)

lemma set_level_preserves:
  assumes inv: "all_sessions P W"
    and level: "\<And>s l. P s \<Longrightarrow> P (s\<lparr>learningLevel := l\<rparr>)"
  shows "all_sessions P (snd (set_level W c))"
  using inv
  by (auto simp add: set_level_def Let_def split: option.splits
        intro!: all_sessions_save level dest: all_sessions_findOne)

lemma set_topic_status_preserves:
  assumes inv: "all_sessions P W"
    and manual: "\<And>s i. findOne W (t_sessionId c) (t_userId c) = Some s
                  \<Longrightarrow> valid_index (studyPlan s) (parseInt (t_topicIndex c)) = Some i \<Longrightarrow> P s
                  \<Longrightarrow> P (manual_transition s i (t_status c))"
  shows "all_sessions P (snd (set_topic_status W c))"
  using inv
  by (auto simp add: set_topic_status_def Let_def split: option.splits
        intro!: all_sessions_save manual dest: all_sessions_findOne)

lemma delete_session_preserves:
  assumes inv: "all_sessions P W"
  shows "all_sessions P (snd (delete_session W c))"
  using inv
  by (auto simp add: delete_session_def split: option.splits intro: all_sessions_delete)

lemma upload_try_preserves:
  assumes "upload_try cfg W c f = Inr r" and "all_sessions P W"
    and new: "P (new_session cfg (u_userId c))"
    and push: "\<And>s r m. P s \<Longrightarrow> P (push_message s r m)"
    and add: "\<And>s h n. P s \<Longrightarrow> P (add_file s h n)"
  shows "all_sessions P (snd r)"
proof -
  let ?found = "if truthy (u_sessionId c) then findOne W (the (u_sessionId c)) (u_userId c) else None"
  let ?s = "case ?found of None \<Rightarrow> new_session cfg (u_userId c) | Some s \<Rightarrow> s"
  have "P ?s"
    using new all_sessions_findOne [OF assms(2)] by (auto split: option.splits if_splits)
  then have p: "P (push_message (add_file ?s h n) ro m)" for h n ro m
    by (intro push add)
  show ?thesis
    using assms(1) all_sessions_save [OF assms(2) p]
    by (auto simp add: upload_try_def Let_def all_sessions_tmp split: option.splits sum.splits if_splits)
qed

lemma upload_route_preserves:
  assumes "all_sessions P W"
    and new: "P (new_session cfg (u_userId c))"
    and push: "\<And>s r m. P s \<Longrightarrow> P (push_message s r m)"
    and add: "\<And>s h n. P s \<Longrightarrow> P (add_file s h n)"
  shows "all_sessions P (snd (upload_route cfg W c))"
proof (cases "u_file c")
  case None
  then show ?thesis
    using assms(1) by (simp add: upload_route_def upload_def multer_single_def)
next
  case (Some f)
  have mw: "all_sessions P (multer_single W c)"
    using Some assms(1) by (simp add: multer_single_def all_sessions_tmp)
  show ?thesis
  proof (cases "upload_try cfg (multer_single W c) c f")
    case (Inl e)
    then show ?thesis using Some mw by (simp add: upload_route_def upload_def)
  next
    case (Inr r)
    then show ?thesis
      using Some upload_try_preserves [OF Inr mw new push add]
      by (simp add: upload_route_def upload_def)
  qed
qed

lemma step_preserves:
  assumes inv: "all_sessions P W"
    and new: "\<And>uid. P (new_session cfg uid)"
    and push: "\<And>s r m. P s \<Longrightarrow> P (push_message s r m)"
    and add: "\<And>s h n. P s \<Longrightarrow> P (add_file s h n)"
    and auto_step: "\<And>s b. P s \<Longrightarrow> P (auto_advance s (current_topic s) b)"
    and level: "\<And>s l. P s \<Longrightarrow> P (s\<lparr>learningLevel := l\<rparr>)"
    and plan: "\<And>s items. P s \<Longrightarrow> P (start_plan (s\<lparr>studyPlan := init_plan items\<rparr>))"
    and manual: "\<And>c s i. a = SetTopicStatus c \<Longrightarrow> findOne W (t_sessionId c) (t_userId c) = Some s
                  \<Longrightarrow> valid_index (studyPlan s) (parseInt (t_topicIndex c)) = Some i \<Longrightarrow> P s
                  \<Longrightarrow> P (manual_transition s i (t_status c))"
  shows "all_sessions P (step cfg W a)"
proof (cases a)
  case (Upload c)
  then show ?thesis
    using upload_route_preserves [OF inv new push add] by simp
next
  case (Chat c)
  then show ?thesis
    using chat_preserves [OF inv push auto_step] by simp
next
  case (SetLevel c)
  then show ?thesis
    using set_level_preserves [OF inv level] by simp
next
  case (GeneratePlan c)
  then show ?thesis
    using generate_plan_preserves [OF inv plan] by simp
next
  case (SetTopicStatus c)
  then show ?thesis
    using set_topic_status_preserves [OF inv manual] by simp
next
  case (DeleteSession c)
  then show ?thesis
    using delete_session_preserves [OF inv] by simp
qed

section \<open>Attached documents\<close>

lemma files_ok_new: "files_ok (new_session cfg uid)"
  by (simp add: files_ok_def new_session_def)

lemma files_ok_push: "files_ok s \<Longrightarrow> files_ok (push_message s r m)"
  by (simp add: files_ok_def push_message_def)

lemma files_ok_add: "files_ok s \<Longrightarrow> files_ok (add_file s h n)"
  by (simp add: files_ok_def add_file_def)

lemma files_ok_auto: "files_ok s \<Longrightarrow> files_ok (auto_advance s ct b)"
  by (simp add: files_ok_def auto_advance_def set_status_def push_message_def Let_def
        split: option.splits)

lemma files_ok_level: "files_ok s \<Longrightarrow> files_ok (s\<lparr>learningLevel := l\<rparr>)"
  by (simp add: files_ok_def)

lemma files_ok_plan: "files_ok s \<Longrightarrow> files_ok (start_plan (s\<lparr>studyPlan := p\<rparr>))"
  by (simp add: files_ok_def start_plan_def set_status_def push_message_def Let_def)

lemma files_ok_manual: "files_ok s \<Longrightarrow> files_ok (manual_transition s i v)"
  by (simp add: files_ok_def manual_transition_def set_status_def push_message_def Let_def)

lemma files_ok_run: "all_sessions files_ok W \<Longrightarrow> all_sessions files_ok (run cfg W acts)"
proof (induction acts arbitrary: W)
  case Nil
  then show ?case by simp
next
  case (Cons a acts)
  have "all_sessions files_ok (step cfg W a)"
    using Cons.prems
    by (rule step_preserves)
       (simp_all add: files_ok_new files_ok_push files_ok_add files_ok_auto files_ok_level
          files_ok_plan files_ok_manual)
  then show ?case using Cons.IH by simp
qed

lemma all_sessions_empty: "all_sessions P empty_world"
  by (simp add: all_sessions_def empty_world_def)

lemma upload_duplicate:
  assumes "u_file c = Some f" and "u_sessionId c = Some sid" and "sid \<noteq> []"
    and "findOne W sid (u_userId c) = Some s"
    and "sha256 cfg (f_bytes f) \<in> set (fileHashes s)"
  shows "\<exists>s'. sessions (snd (upload_route cfg W c)) sid = Some s'
            \<and> fileHashes s' = fileHashes s \<and> filenames s' = filenames s"
proof -
  let ?W = "multer_single W c"
  have mw: "?W = W\<lparr>tmp_files := insert (f_path f) (tmp_files W)\<rparr>"
    using assms(1) by (simp add: multer_single_def)
  have fo: "findOne ?W sid (u_userId c) = Some s"
    using assms(4) by (simp add: mw findOne_def)
  have ss: "sessions ?W sid = Some s"
    using findOne_sessions [OF fo] .
  have af: "add_file s (sha256 cfg (f_bytes f)) n = s" for n
    using assms(5) by (simp add: add_file_def)
  show ?thesis
  proof (cases "upload_try cfg ?W c f")
    case (Inl e)
    then have "snd (upload_route cfg W c) = ?W"
      using assms(1) by (simp add: upload_route_def upload_def)
    then show ?thesis using ss by simp
  next
    case (Inr r)
    then have r: "snd (upload_route cfg W c) = snd r"
      using assms(1) by (simp add: upload_route_def upload_def)
    from Inr have "\<exists>s'. sessions (snd r) sid = Some s'
            \<and> fileHashes s' = fileHashes s \<and> filenames s' = filenames s"
      using assms(2,3) fo
      by (auto simp add: upload_try_def Let_def truthy_def af save_def push_message_def
            split: option.splits sum.splits if_splits)
    then show ?thesis
      using r by simp
  qed
qed

lemma upload_success_code:
  assumes "u_file c = Some f" and "u_sessionId c = Some sid" and "sid \<noteq> []"
    and "findOne W sid (u_userId c) = Some s"
    and "u_read_err c = None" and "u_ingest c = Inr r" and "u_find_err c = None" and "u_save_err c = None"
  shows "code (fst (upload_route cfg W c)) = 200"
proof -
  have "findOne (multer_single W c) sid (u_userId c) = Some s"
    using assms(1,4) by (simp add: multer_single_def findOne_def)
  then show ?thesis
    using assms
    by (simp add: upload_route_def upload_def upload_try_def Let_def truthy_def json_def)
qed

text \<open>
  C8. An upload to an existing session whose file bytes hash to a fingerprint the session
  already holds leaves the session's fingerprints and names as they were, whatever the
  file is called and whatever the external calls answer, and it answers 200 when they
  all succeed. After any sequence of operations from the empty store (sequences of
  uploads among them), every session has distinct fingerprints and as many names as
  fingerprints.
\<close>

theorem attach_document_dedup:
  "(\<forall>f sid s. u_file c = Some f \<and> u_sessionId c = Some sid \<and> sid \<noteq> []
        \<and> findOne W sid (u_userId c) = Some s
        \<and> sha256 cfg (f_bytes f) \<in> set (fileHashes s) \<longrightarrow>
      (\<exists>s'. sessions (snd (upload_route cfg W c)) sid = Some s'
          \<and> fileHashes s' = fileHashes s \<and> filenames s' = filenames s)
      \<and> (u_read_err c = None \<and> (\<exists>r. u_ingest c = Inr r) \<and> u_find_err c = None \<and> u_save_err c = None
           \<longrightarrow> code (fst (upload_route cfg W c)) = 200))
   \<and> (\<forall>sid s. sessions (run cfg empty_world acts) sid = Some s \<longrightarrow>
        distinct (fileHashes s) \<and> length (filenames s) = length (fileHashes s))"
proof -
  have "all_sessions files_ok (run cfg empty_world acts)"
    by (rule files_ok_run [OF all_sessions_empty])
  then have 2: "\<forall>sid s. sessions (run cfg empty_world acts) sid = Some s \<longrightarrow>
        distinct (fileHashes s) \<and> length (filenames s) = length (fileHashes s)"
    by (simp add: all_sessions_def files_ok_def)
  show ?thesis
    using 2 upload_duplicate [of c _ _ W _ cfg] upload_success_code [of c _ _ W _ _ cfg]
    by blast
qed

lemma demo_upload_call_simps:
  "u_userId (demo_upload_call sid name bytes r) = ''65a1b2c3d4e5f60718293a4b''"
  "u_file (demo_upload_call sid name bytes r)
     = Some \<lparr>f_path = ''uploads/tmp1'', f_originalname = name, f_bytes = bytes\<rparr>"
  "u_sessionId (demo_upload_call sid name bytes r) = sid"
  "u_read_err (demo_upload_call sid name bytes r) = None"
  "u_ingest (demo_upload_call sid name bytes r) = r"
  "u_find_err (demo_upload_call sid name bytes r) = None"
  "u_new_id (demo_upload_call sid name bytes r) = ''507f1f77bcf86cd799439011''"
  "u_save_err (demo_upload_call sid name bytes r) = None"
  by (simp_all add: demo_upload_call_def)

lemmas upload_defs = upload_route_def upload_def upload_try_def multer_single_def add_file_def
  new_session_def push_message_def save_def findOne_def truthy_def json_def status_json_def

theorem attach_document_dedup_witness:
  "(\<exists>s'. sessions (snd (upload_route demo_config (demo_world (demo_session [] (- 1)))
                 (demo_upload_call (Some ''507f1f77bcf86cd799439011'') ''copy.pdf'' ''1'' (Inr \<lparr>i_cached = True, i_summary = None\<rparr>))))
             ''507f1f77bcf86cd799439011'' = Some s'
        \<and> fileHashes s' = [''h1''] \<and> filenames s' = [''f1.pdf''])
   \<and> code (fst (upload_route demo_config (demo_world (demo_session [] (- 1)))
                 (demo_upload_call (Some ''507f1f77bcf86cd799439011'') ''copy.pdf'' ''1'' (Inr \<lparr>i_cached = True, i_summary = None\<rparr>))))
       = 200
   \<and> (\<exists>s. sessions (run demo_config empty_world
                 [Upload (demo_upload_call None ''a.pdf'' ''1'' (Inr \<lparr>i_cached = False, i_summary = None\<rparr>)),
                  Upload (demo_upload_call (Some ''507f1f77bcf86cd799439011'') ''b.pdf'' ''1'' (Inr \<lparr>i_cached = True, i_summary = None\<rparr>)),
                  Upload (demo_upload_call (Some ''507f1f77bcf86cd799439011'') ''c.pdf'' ''2'' (Inr \<lparr>i_cached = False, i_summary = None\<rparr>))])
             ''507f1f77bcf86cd799439011'' = Some s
        \<and> distinct (fileHashes s) \<and> length (filenames s) = length (fileHashes s))"
proof -
  let ?c = "demo_upload_call (Some ''507f1f77bcf86cd799439011'') ''copy.pdf'' ''1'' (Inr \<lparr>i_cached = True, i_summary = None\<rparr>)"
  let ?W = "demo_world (demo_session [] (- 1))"
  let ?acts = "[Upload (demo_upload_call None ''a.pdf'' ''1'' (Inr \<lparr>i_cached = False, i_summary = None\<rparr>)),
                Upload (demo_upload_call (Some ''507f1f77bcf86cd799439011'') ''b.pdf'' ''1'' (Inr \<lparr>i_cached = True, i_summary = None\<rparr>)),
                Upload (demo_upload_call (Some ''507f1f77bcf86cd799439011'') ''c.pdf'' ''2'' (Inr \<lparr>i_cached = False, i_summary = None\<rparr>))]"
  note t = attach_document_dedup [of ?c ?W demo_config ?acts]
  have fs: "fileHashes (demo_session [] (- 1)) = [''h1'']" "filenames (demo_session [] (- 1)) = [''f1.pdf'']"
    by (simp_all add: demo_session_def)
  have h: "u_file ?c = Some \<lparr>f_path = ''uploads/tmp1'', f_originalname = ''copy.pdf'', f_bytes = ''1''\<rparr>
        \<and> u_sessionId ?c = Some ''507f1f77bcf86cd799439011'' \<and> ''507f1f77bcf86cd799439011'' \<noteq> []
        \<and> findOne ?W ''507f1f77bcf86cd799439011'' (u_userId ?c) = Some (demo_session [] (- 1))
        \<and> sha256 demo_config (f_bytes \<lparr>f_path = ''uploads/tmp1'', f_originalname = ''copy.pdf'', f_bytes = ''1''\<rparr>)
             \<in> set (fileHashes (demo_session [] (- 1)))"
    by (simp add: demo_upload_call_simps findOne_demo demo_config_def fs)
  have ok: "u_read_err ?c = None \<and> (\<exists>r. u_ingest ?c = Inr r) \<and> u_find_err ?c = None \<and> u_save_err ?c = None"
    by (simp add: demo_upload_call_simps)
  from t h ok have a: "(\<exists>s'. sessions (snd (upload_route demo_config ?W ?c)) ''507f1f77bcf86cd799439011'' = Some s'
        \<and> fileHashes s' = fileHashes (demo_session [] (- 1))
        \<and> filenames s' = filenames (demo_session [] (- 1)))
      \<and> code (fst (upload_route demo_config ?W ?c)) = 200"
    by blast
  have e: "\<exists>s. sessions (run demo_config empty_world ?acts) ''507f1f77bcf86cd799439011'' = Some s"
    by (simp add: upload_defs demo_upload_call_simps demo_config_def empty_world_def Let_def)
  with t have b: "\<exists>s. sessions (run demo_config empty_world ?acts) ''507f1f77bcf86cd799439011'' = Some s
        \<and> distinct (fileHashes s) \<and> length (filenames s) = length (fileHashes s)"
    by blast
  from a b show ?thesis by (simp add: fs)
qed

section \<open>The cursor and the active topic\<close>

lemma cursor_marksI:
  "(\<And>j. j < length (studyPlan s) \<Longrightarrow> status (studyPlan s ! j) = ''in-progress''
        \<Longrightarrow> int j = currentTopicIndex s) \<Longrightarrow> cursor_marks s"
  by (simp add: cursor_marks_def)

lemma cursor_marksD:
  "cursor_marks s \<Longrightarrow> j < length (studyPlan s) \<Longrightarrow> status (studyPlan s ! j) = ''in-progress''
     \<Longrightarrow> int j = currentTopicIndex s"
  by (simp add: cursor_marks_def)

lemma manual_length: "length (studyPlan (manual_transition s i v)) = length (studyPlan s)"
  by (simp add: manual_transition_def set_status_def push_message_def Let_def)

lemma manual_status:
  assumes "i < length (studyPlan s)" and "j < length (studyPlan s)"
  shows "status (studyPlan (manual_transition s i v) ! j) =
     (if v = ''completed'' \<and> Suc i < length (studyPlan s)
          \<and> status (studyPlan s ! Suc i) = ''pending'' \<and> j = Suc i
      then ''in-progress''
      else if j = i then v else status (studyPlan s ! j))"
  using assms
  by (simp add: manual_transition_def set_status_def push_message_def Let_def nth_list_update)

lemma manual_cursor:
  "currentTopicIndex (manual_transition s i v) =
     (if v = ''completed'' \<and> Suc i < length (studyPlan s) \<and> status (studyPlan s ! Suc i) = ''pending''
      then int (Suc i)
      else if v = ''in-progress'' then int i else currentTopicIndex s)"
  by (simp add: manual_transition_def set_status_def push_message_def Let_def)

lemma cursor_marks_manual:
  assumes c: "cursor_marks s" and i: "i < length (studyPlan s)"
    and d: "(v = ''in-progress''
          \<or> (v = ''completed'' \<and> Suc i < length (studyPlan s) \<and> status (studyPlan s ! Suc i) = ''pending''))
         \<longrightarrow> (\<forall>j < length (studyPlan s). status (studyPlan s ! j) = ''in-progress'' \<longrightarrow> j = i)"
  shows "cursor_marks (manual_transition s i v)"
proof (rule cursor_marksI)
  fix j
  assume "j < length (studyPlan (manual_transition s i v))"
    and st: "status (studyPlan (manual_transition s i v) ! j) = ''in-progress''"
  then have j: "j < length (studyPlan s)"
    by (simp add: manual_length)
  let ?promote = "v = ''completed'' \<and> Suc i < length (studyPlan s)
                   \<and> status (studyPlan s ! Suc i) = ''pending''"
  show "int j = currentTopicIndex (manual_transition s i v)"
  proof (cases ?promote)
    case True
    with d have only: "\<And>k. k < length (studyPlan s) \<Longrightarrow> status (studyPlan s ! k) = ''in-progress'' \<Longrightarrow> k = i"
      by blast
    have "j = Suc i"
    proof (rule ccontr)
      assume n: "j \<noteq> Suc i"
      show False
      proof (cases "j = i")
        case True
        with st n \<open>?promote\<close> i j show False by (simp add: manual_status)
      next
        case False
        with st n i j have "status (studyPlan s ! j) = ''in-progress''"
          by (simp add: manual_status)
        with only [OF j] False show False by simp
      qed
    qed
    with True show ?thesis by (simp add: manual_cursor)
  next
    case np: False
    have ms: "status (studyPlan (manual_transition s i v) ! j) = (if j = i then v else status (studyPlan s ! j))"
      using np i j by (auto simp add: manual_status)
    have mc: "currentTopicIndex (manual_transition s i v)
                = (if v = ''in-progress'' then int i else currentTopicIndex s)"
      using np by (auto simp add: manual_cursor)
    show ?thesis
    proof (cases "j = i")
      case True
      with st ms have "v = ''in-progress''" by simp
      with True mc show ?thesis by simp
    next
      case False
      with st ms have sj: "status (studyPlan s ! j) = ''in-progress''" by simp
      show ?thesis
      proof (cases "v = ''in-progress''")
        case True
        with d sj j have "j = i" by blast
        with False show ?thesis by simp
      next
        case False
        with mc cursor_marksD [OF c j sj] show ?thesis by simp
      qed
    qed
  qed
qed

lemma auto_advance_skip:
  "ct = None \<or> \<not> b \<or> (\<exists>t. ct = Some t \<and> status t = ''completed'') \<Longrightarrow> auto_advance s ct b = s"
  by (auto simp add: auto_advance_def split: option.splits)

lemma auto_length: "length (studyPlan (auto_advance s ct b)) = length (studyPlan s)"
  by (simp add: auto_advance_def set_status_def push_message_def Let_def split: option.splits)

lemma auto_status:
  assumes "currentTopicIndex s = int i" and "i < length (studyPlan s)"
    and "status t \<noteq> ''completed''" and "j < length (studyPlan s)"
  shows "status (studyPlan (auto_advance s (Some t) True) ! j) =
     (if Suc i < length (studyPlan s) \<and> j = Suc i then ''in-progress''
      else if j = i then ''completed'' else status (studyPlan s ! j))"
  using assms
  by (simp add: auto_advance_def set_status_def push_message_def Let_def nth_list_update)

lemma auto_cursor:
  assumes "currentTopicIndex s = int i" and "status t \<noteq> ''completed''"
  shows "currentTopicIndex (auto_advance s (Some t) True) =
     (if Suc i < length (studyPlan s) then int (Suc i) else currentTopicIndex s)"
  using assms
  by (simp add: auto_advance_def set_status_def push_message_def Let_def)

lemma cursor_marks_auto:
  assumes c: "cursor_marks s"
  shows "cursor_marks (auto_advance s (current_topic s) b)"
proof (cases "current_topic s = None \<or> \<not> b
               \<or> (\<exists>t. current_topic s = Some t \<and> status t = ''completed'')")
  case True
  then show ?thesis using c by (simp add: auto_advance_skip)
next
  case False
  then obtain t where t: "current_topic s = Some t" "status t \<noteq> ''completed''" and b: "b"
    by auto
  from t(1) have r: "0 \<le> currentTopicIndex s" "currentTopicIndex s < int (length (studyPlan s))"
    by (simp_all add: current_topic_def split: if_splits)
  define i where "i = nat (currentTopicIndex s)"
  have i: "currentTopicIndex s = int i" "i < length (studyPlan s)"
    using r by (simp_all add: i_def)
  show ?thesis
    unfolding t(1)
  proof (rule cursor_marksI)
    fix j
    assume "j < length (studyPlan (auto_advance s (Some t) b))"
      and st: "status (studyPlan (auto_advance s (Some t) b) ! j) = ''in-progress''"
    then have j: "j < length (studyPlan s)"
      by (simp add: auto_length)
    have ms: "status (studyPlan (auto_advance s (Some t) b) ! j) =
       (if Suc i < length (studyPlan s) \<and> j = Suc i then ''in-progress''
        else if j = i then ''completed'' else status (studyPlan s ! j))"
      using auto_status [OF i t(2) j] b by simp
    have mc: "currentTopicIndex (auto_advance s (Some t) b) =
       (if Suc i < length (studyPlan s) then int (Suc i) else currentTopicIndex s)"
      using auto_cursor [OF i(1) t(2)] b by simp
    show "int j = currentTopicIndex (auto_advance s (Some t) b)"
    proof (cases "Suc i < length (studyPlan s) \<and> j = Suc i")
      case True
      with mc show ?thesis by simp
    next
      case False
      with st ms have ji: "j \<noteq> i" and sj: "status (studyPlan s ! j) = ''in-progress''"
        by (auto split: if_splits)
      have "int j = int i"
        using cursor_marksD [OF c j sj] i(1) by simp
      with ji show ?thesis by simp
    qed
  qed
qed

lemma cursor_marks_new: "cursor_marks (new_session cfg uid)"
  by (simp add: cursor_marks_def new_session_def)

lemma cursor_marks_push: "cursor_marks s \<Longrightarrow> cursor_marks (push_message s r m)"
  by (simp add: cursor_marks_def push_message_def)

lemma cursor_marks_add: "cursor_marks s \<Longrightarrow> cursor_marks (add_file s h n)"
  by (simp add: cursor_marks_def add_file_def)

lemma cursor_marks_level: "cursor_marks s \<Longrightarrow> cursor_marks (s\<lparr>learningLevel := l\<rparr>)"
  by (simp add: cursor_marks_def)

lemma cursor_marks_plan: "cursor_marks (start_plan (s\<lparr>studyPlan := init_plan items\<rparr>))"
  by (cases items)
     (auto simp add: cursor_marks_def start_plan_def init_plan_def set_status_def push_message_def
        Let_def nth_Cons split: nat.splits)

lemma valid_index_less: "valid_index xs n = Some i \<Longrightarrow> i < length xs"
  by (auto simp add: valid_index_def split: option.splits if_splits)

lemma cursor_marks_run:
  "all_sessions cursor_marks W \<Longrightarrow> disciplined_run cfg W acts
     \<Longrightarrow> all_sessions cursor_marks (run cfg W acts)"
proof (induction acts arbitrary: W)
  case Nil
  then show ?case by simp
next
  case (Cons a acts)
  have d: "disciplined W a" and rest: "disciplined_run cfg (step cfg W a) acts"
    using Cons.prems(2) by simp_all
  have "all_sessions cursor_marks (step cfg W a)"
  proof (rule step_preserves [OF Cons.prems(1)])
    fix c s i
    assume a: "a = SetTopicStatus c"
      and f: "findOne W (t_sessionId c) (t_userId c) = Some s"
      and v: "valid_index (studyPlan s) (parseInt (t_topicIndex c)) = Some i"
      and p: "cursor_marks s"
    from d a f v have "(t_status c = ''in-progress''
          \<or> (t_status c = ''completed'' \<and> Suc i < length (studyPlan s)
              \<and> status (studyPlan s ! Suc i) = ''pending''))
         \<longrightarrow> (\<forall>j < length (studyPlan s). status (studyPlan s ! j) = ''in-progress'' \<longrightarrow> j = i)"
      by (simp add: disciplined_def)
    then show "cursor_marks (manual_transition s i (t_status c))"
      by (rule cursor_marks_manual [OF p valid_index_less [OF v]])
  qed (simp_all add: cursor_marks_new cursor_marks_push cursor_marks_add cursor_marks_level
         cursor_marks_plan cursor_marks_auto)
  then show ?case using Cons.IH rest by simp
qed

lemma filter_at_most_one:
  "(\<And>i j. i < length xs \<Longrightarrow> j < length xs \<Longrightarrow> P (xs ! i) \<Longrightarrow> P (xs ! j) \<Longrightarrow> i = j)
     \<Longrightarrow> length (filter P xs) \<le> 1"
proof (induction xs)
  case Nil
  then show ?case by simp
next
  case (Cons x xs)
  have tl: "\<And>i j. i < length xs \<Longrightarrow> j < length xs \<Longrightarrow> P (xs ! i) \<Longrightarrow> P (xs ! j) \<Longrightarrow> i = j"
    using Cons.prems [of "Suc _" "Suc _"] by simp
  show ?case
  proof (cases "P x")
    case False
    then show ?thesis using Cons.IH [OF tl] by simp
  next
    case True
    have "\<not> P y" if "y \<in> set xs" for y
    proof
      assume py: "P y"
      from that obtain j where "j < length xs" "xs ! j = y"
        by (auto simp add: in_set_conv_nth)
      then have "Suc j = 0"
        using Cons.prems [of "Suc j" 0] True py by simp
      then show False by simp
    qed
    then have "filter P xs = []"
      by (simp add: filter_empty_conv)
    then show ?thesis using True by simp
  qed
qed

lemma cursor_marks_count:
  assumes c: "cursor_marks s"
  shows "in_progress_count (studyPlan s) \<le> 1"
  unfolding in_progress_count_def
proof (rule filter_at_most_one)
  fix i j
  assume "i < length (studyPlan s)" "j < length (studyPlan s)"
    "status (studyPlan s ! i) = ''in-progress''" "status (studyPlan s ! j) = ''in-progress''"
  with c have "int i = currentTopicIndex s" "int j = currentTopicIndex s"
    by (simp_all add: cursor_marks_def)
  then show "i = j" by simp
qed

text \<open>
  C4, as amended. Starting from the empty store, after any sequence of operations (upload,
  chat with its automatic step, set-level, generate-plan, manual status updates, delete)
  in which every manual status update is disciplined, that is, one that sets
  \<open>in-progress\<close>, or completes a topic whose successor is \<open>pending\<close>, is made while no
  topic other than the addressed one is \<open>in-progress\<close>, every \<open>in-progress\<close> topic of
  every session is the one under the cursor, so at most one topic is \<open>in-progress\<close>.
\<close>

theorem disciplined_single_in_progress:
  assumes "disciplined_run cfg empty_world acts"
    and "sessions (run cfg empty_world acts) sid = Some s"
  shows "in_progress_count (studyPlan s) \<le> 1
       \<and> (\<forall>j < length (studyPlan s).
             status (studyPlan s ! j) = ''in-progress'' \<longrightarrow> int j = currentTopicIndex s)"
proof -
  have "all_sessions cursor_marks (run cfg empty_world acts)"
    by (rule cursor_marks_run [OF all_sessions_empty assms(1)])
  then have c: "cursor_marks s"
    using assms(2) by (simp add: all_sessions_def)
  then show ?thesis
    using cursor_marks_count [OF c] by (simp add: cursor_marks_def)
qed

lemmas route_defs = chat_def generate_plan_def set_topic_status_def set_level_def delete_session_def
  manual_transition_def auto_advance_def current_topic_def start_plan_def init_plan_def set_status_def
  valid_index_def

theorem disciplined_single_in_progress_witness:
  "disciplined_run demo_config empty_world
     [Upload (demo_upload_call None ''a.pdf'' ''1'' (Inr \<lparr>i_cached = False, i_summary = None\<rparr>)),
      GeneratePlan (demo_plan_call (Inr demo_items)),
      SetTopicStatus (demo_topic_call ''0'' ''completed''),
      Chat (demo_chat_call (Inr \<lparr>r_response = ''ok'', r_topic_completed = True\<rparr>))]
   \<and> (\<exists>s. sessions (run demo_config empty_world
        [Upload (demo_upload_call None ''a.pdf'' ''1'' (Inr \<lparr>i_cached = False, i_summary = None\<rparr>)),
         GeneratePlan (demo_plan_call (Inr demo_items)),
         SetTopicStatus (demo_topic_call ''0'' ''completed''),
         Chat (demo_chat_call (Inr \<lparr>r_response = ''ok'', r_topic_completed = True\<rparr>))]) ''507f1f77bcf86cd799439011'' = Some s
        \<and> in_progress_count (studyPlan s) \<le> 1)"
proof -
  let ?acts = "[Upload (demo_upload_call None ''a.pdf'' ''1'' (Inr \<lparr>i_cached = False, i_summary = None\<rparr>)),
      GeneratePlan (demo_plan_call (Inr demo_items)),
      SetTopicStatus (demo_topic_call ''0'' ''completed''),
      Chat (demo_chat_call (Inr \<lparr>r_response = ''ok'', r_topic_completed = True\<rparr>))]"
  note ev = upload_defs route_defs parseInt_0
        demo_upload_call_simps demo_plan_call_simps demo_topic_call_simps demo_chat_call_simps
        demo_config_def demo_items_def empty_world_def Let_def
  have d: "disciplined_run demo_config empty_world ?acts"
    by (simp add: disciplined_def ev less_Suc_eq)
  have e: "\<exists>s. sessions (run demo_config empty_world ?acts) ''507f1f77bcf86cd799439011'' = Some s"
    by (simp add: ev)
  then obtain s where s: "sessions (run demo_config empty_world ?acts) ''507f1f77bcf86cd799439011'' = Some s" ..
  from disciplined_single_in_progress [OF d s] have "in_progress_count (studyPlan s) \<le> 1" ..
  with d s show ?thesis by blast
qed

text \<open>
  C4, as stated, fails: the manual update stores the status it is given without looking
  at the other topics. After an upload, a generated plan of two topics and a manual
  update of topic 1 to \<open>in-progress\<close>, two topics are \<open>in-progress\<close>.
\<close>

theorem manual_in_progress_counterexample:
  "in_progress_at
     (run demo_config empty_world
        [Upload (demo_upload_call None ''a.pdf'' ''1'' (Inr \<lparr>i_cached = False, i_summary = None\<rparr>)),
         GeneratePlan (demo_plan_call (Inr demo_items)),
         SetTopicStatus (demo_topic_call ''1'' ''in-progress'')])
     ''507f1f77bcf86cd799439011'' = Some 2"
  by (simp add: in_progress_at_def in_progress_count_def upload_defs route_defs parseInt_1
        demo_upload_call_simps demo_plan_call_simps demo_topic_call_simps demo_config_def demo_items_def
        empty_world_def Let_def)

text \<open>
  An index written with a leading no-break space is parsed like the bare numeral: the
  same update through index U+00A0 followed by 1 is not disciplined either, and leaves
  two topics \<open>in-progress\<close>.
\<close>

lemma nbsp_index_is_parsed:
  "\<not> disciplined_run demo_config empty_world
     [Upload (demo_upload_call None ''a.pdf'' ''1'' (Inr \<lparr>i_cached = False, i_summary = None\<rparr>)),
      GeneratePlan (demo_plan_call (Inr demo_items)),
      SetTopicStatus (demo_topic_call ([CHR 0xC2, CHR 0xA0] @ ''1'') ''in-progress'')]
   \<and> in_progress_at
     (run demo_config empty_world
        [Upload (demo_upload_call None ''a.pdf'' ''1'' (Inr \<lparr>i_cached = False, i_summary = None\<rparr>)),
         GeneratePlan (demo_plan_call (Inr demo_items)),
         SetTopicStatus (demo_topic_call ([CHR 0xC2, CHR 0xA0] @ ''1'') ''in-progress'')])
     ''507f1f77bcf86cd799439011'' = Some 2"
  by (simp add: disciplined_def in_progress_at_def in_progress_count_def upload_defs route_defs
        parse_defs demo_upload_call_simps demo_plan_call_simps demo_topic_call_simps
        demo_config_def demo_items_def empty_world_def Let_def less_Suc_eq)

section \<open>Decimal numerals are parsed back\<close>

lemma dec_char_cases:
  assumes "d < (10::nat)"
  shows "''0123456789'' ! d \<in> set ''0123456789'' \<and> digit_of (''0123456789'' ! d) = Some d"
proof -
  from assms have "d = 0 \<or> d = 1 \<or> d = 2 \<or> d = 3 \<or> d = 4 \<or> d = 5 \<or> d = 6 \<or> d = 7 \<or> d = 8 \<or> d = 9"
    by arith
  then show ?thesis by (elim disjE) (simp_all add: digit_of_def)
qed

lemma digit_of_dec: "d < (10::nat) \<Longrightarrow> digit_of (''0123456789'' ! d) = Some d"
  by (simp add: dec_char_cases)

lemma dec_char_props:
  assumes "c \<in> set ''0123456789''"
  shows "ws_len (c # r) = 0" and "c \<noteq> CHR ''+''" and "c \<noteq> CHR ''-''" and "c \<noteq> CHR ''x''" and "c \<noteq> CHR ''X''"
    and "is_digit 10 c"
proof -
  have "\<not> ws1 c" and "\<not> ws2 c b" and "\<not> ws3 c b d" for b d
    using assms by (auto simp add: ws1_def ws2_def ws3_def)
  then show "ws_len (c # r) = 0"
    by (cases "c # r" rule: ws_len.cases) simp_all
  show "c \<noteq> CHR ''+''" and "c \<noteq> CHR ''-''" and "c \<noteq> CHR ''x''" and "c \<noteq> CHR ''X''"
    and "is_digit 10 c"
    using assms by (auto simp add: is_digit_def digit_of_def)
qed

lemma decimal_chars: "decimal n \<noteq> [] \<and> set (decimal n) \<subseteq> set ''0123456789''"
proof (induction n rule: decimal.induct)
  case (1 n)
  show ?case
  proof (cases "n < 10")
    case True
    then show ?thesis
      using dec_char_cases [of n] by (simp add: decimal.simps [of n])
  next
    case False
    have "n mod 10 < 10" by simp
    then show ?thesis
      using False 1 dec_char_cases [of "n mod 10"] by (simp add: decimal.simps [of n])
  qed
qed

lemma digits_value_snoc:
  "digits_value R (Z @ [c]) = digits_value R Z * R + (case digit_of c of None \<Rightarrow> 0 | Some d \<Rightarrow> d)"
  by (simp add: digits_value_def)

lemma digits_value_decimal: "digits_value 10 (decimal n) = n"
proof (induction n rule: decimal.induct)
  case (1 n)
  show ?case
  proof (cases "n < 10")
    case True
    then show ?thesis
      by (simp add: decimal.simps [of n] digits_value_def digit_of_dec)
  next
    case False
    have "n mod 10 < 10" by simp
    then have "digit_of (''0123456789'' ! (n mod 10)) = Some (n mod 10)"
      by (rule digit_of_dec)
    then show ?thesis
      using False 1 by (simp add: decimal.simps [of n] digits_value_snoc)
  qed
qed

lemma parseInt_digits:
  assumes "Z \<noteq> []" and "set Z \<subseteq> set ''0123456789''"
  shows "parseInt Z = Some (int (digits_value 10 Z))"
proof -
  from assms(1) obtain c r where Z: "Z = c # r" by (cases Z) auto
  have all: "\<And>x. x \<in> set Z \<Longrightarrow> x \<in> set ''0123456789''"
    using assms(2) by blast
  have c: "ws_len (c # r) = 0" "c \<noteq> CHR ''+''" "c \<noteq> CHR ''-''"
    using dec_char_props [OF all [of c]] by (simp_all add: Z)
  have dw: "skip_ws Z = Z"
    using c(1) by (simp add: Z skip_ws_none)
  have hex: "(case Z of a # b # _ \<Rightarrow> a = CHR ''0'' \<and> (b = CHR ''x'' \<or> b = CHR ''X'') | _ \<Rightarrow> False) = False"
  proof (cases r)
    case Nil
    then show ?thesis by (simp add: Z)
  next
    case (Cons b r')
    then have "b \<noteq> CHR ''x''" "b \<noteq> CHR ''X''"
      using dec_char_props [OF all [of b]] by (simp_all add: Z)
    then show ?thesis by (simp add: Z Cons)
  qed
  have tw: "takeWhile (is_digit 10) Z = Z"
    using dec_char_props(6) [OF all] by (simp add: takeWhile_eq_all_conv)
  have s1: "(case Z of [] \<Rightarrow> Z | c # r \<Rightarrow> if c = CHR ''+'' \<or> c = CHR ''-'' then r else Z) = Z"
    using c by (simp add: Z)
  have sg: "(case Z of [] \<Rightarrow> (1::int) | c # _ \<Rightarrow> if c = CHR ''-'' then - 1 else 1) = 1"
    using c by (simp add: Z)
  show ?thesis
    using assms(1) by (simp add: parseInt_def Let_def dw s1 sg hex tw)
qed

lemma parseInt_decimal: "parseInt (decimal n) = Some (int n)"
  using parseInt_digits [of "decimal n"] decimal_chars [of n]
  by (simp add: digits_value_decimal)

section \<open>Completing a fresh plan from left to right\<close>

lemma progress_plan_0: "studyPlan (start_plan (s\<lparr>studyPlan := init_plan items\<rparr>)) = progress_plan items 0"
  by (cases items)
     (simp_all add: start_plan_def init_plan_def set_status_def push_message_def Let_def
        progress_plan_def entry_def)

lemma progress_plan_split:
  assumes "k < length items"
  shows "progress_plan items k =
           map (entry ''completed'') (take k items) @ entry ''in-progress'' (items ! k)
             # map (entry ''pending'') (drop (Suc k) items)"
proof -
  have "drop k items = items ! k # drop (Suc k) items"
    using assms by (simp add: Cons_nth_drop_Suc)
  then show ?thesis by (simp add: progress_plan_def)
qed

lemma progress_plan_all: "length items \<le> k \<Longrightarrow> progress_plan items k = map (entry ''completed'') items"
  by (simp add: progress_plan_def)

lemma length_progress_plan: "length (progress_plan items k) = length items"
proof (cases "k < length items")
  case True
  then show ?thesis by (simp add: progress_plan_split)
next
  case False
  then show ?thesis by (simp add: progress_plan_all)
qed

lemma manual_progress:
  assumes k: "k < length items" and p: "studyPlan s = progress_plan items k"
  shows "studyPlan (manual_transition s k ''completed'') = progress_plan items (Suc k)"
proof -
  let ?A = "map (entry ''completed'') (take k items)"
  have lA: "length ?A = k" using k by simp
  have sp: "studyPlan s = ?A @ entry ''in-progress'' (items ! k) # map (entry ''pending'') (drop (Suc k) items)"
    using p progress_plan_split [OF k] by simp
  have tk: "map (entry ''completed'') (take (Suc k) items) = ?A @ [entry ''completed'' (items ! k)]"
    using k by (simp add: take_Suc_conv_app_nth)
  show ?thesis
  proof (cases "Suc k < length items")
    case False
    then have d: "drop (Suc k) items = []" by simp
    have "studyPlan (manual_transition s k ''completed'') = ?A @ [entry ''completed'' (items ! k)]"
      using False k lA
      by (simp add: manual_transition_def set_status_def push_message_def Let_def sp d
            nth_append list_update_append entry_def)
    then show ?thesis
      using False by (simp add: progress_plan_all tk [symmetric])
  next
    case True
    then have d: "drop (Suc k) items = items ! Suc k # drop (Suc (Suc k)) items"
      by (simp add: Cons_nth_drop_Suc)
    have "studyPlan (manual_transition s k ''completed'') =
            ?A @ entry ''completed'' (items ! k) # entry ''in-progress'' (items ! Suc k)
              # map (entry ''pending'') (drop (Suc (Suc k)) items)"
      using True k lA
      by (simp add: manual_transition_def set_status_def push_message_def Let_def sp d
            nth_append list_update_append entry_def)
    then show ?thesis
      using progress_plan_split [OF True] by (simp add: tk)
  qed
qed

lemma manual_userId: "userId (manual_transition s i v) = userId s"
  by (simp add: manual_transition_def set_status_def push_message_def Let_def)

lemma complete_call_simps:
  "t_userId (complete_call uid sid k) = uid"
  "t_sessionId (complete_call uid sid k) = sid"
  "t_topicIndex (complete_call uid sid k) = decimal k"
  "t_status (complete_call uid sid k) = ''completed''"
  "t_find_err (complete_call uid sid k) = None"
  "t_save_err (complete_call uid sid k) = None"
  by (simp_all add: complete_call_def)

lemma complete_step:
  assumes f: "findOne W sid uid = Some s" and p: "studyPlan s = progress_plan items k"
    and k: "k < length items"
  shows "set_topic_status W (complete_call uid sid k) =
           (json (SessionDoc (Some (manual_transition s k ''completed''))),
            save W sid (manual_transition s k ''completed''))"
proof -
  have "k < length (studyPlan s)"
    using k p by (simp add: length_progress_plan)
  then show ?thesis
    using set_topic_status_ok [of "complete_call uid sid k" W s k] f
    by (simp add: complete_call_simps parseInt_decimal)
qed

lemma complete_first_state:
  assumes f: "findOne W sid uid = Some s" and p: "studyPlan s = progress_plan items 0"
  shows "k \<le> length items \<Longrightarrow>
           \<exists>s'. findOne (complete_first W uid sid k) sid uid = Some s'
              \<and> studyPlan s' = progress_plan items k"
proof (induction k)
  case 0
  then show ?case using f p by simp
next
  case (Suc k)
  then obtain s' where s': "findOne (complete_first W uid sid k) sid uid = Some s'"
    "studyPlan s' = progress_plan items k"
    by auto
  have k: "k < length items" using Suc.prems by simp
  have u: "userId (manual_transition s' k ''completed'') = uid"
    using findOne_userId [OF s'(1)] by (simp add: manual_userId)
  have "complete_first W uid sid (Suc k) =
          save (complete_first W uid sid k) sid (manual_transition s' k ''completed'')"
    using complete_step [OF s' k] by simp
  then show ?case
    using u manual_progress [OF k s'(2)] by (simp add: findOne_save)
qed

lemma in_progress_count_progress:
  "in_progress_count (progress_plan items k) = (if k < length items then 1 else 0)"
proof (cases "k < length items")
  case True
  then show ?thesis
    by (simp add: in_progress_count_def progress_plan_split filter_map comp_def entry_def)
next
  case False
  then show ?thesis
    by (simp add: in_progress_count_def progress_plan_all filter_map comp_def entry_def)
qed

lemma all_completed_progress:
  "(\<forall>t \<in> set (progress_plan items k). status t = ''completed'') \<longleftrightarrow> length items \<le> k"
proof (cases "k < length items")
  case True
  then have "entry ''in-progress'' (items ! k) \<in> set (progress_plan items k)"
    by (simp add: progress_plan_split)
  moreover have "status (entry ''in-progress'' (items ! k)) \<noteq> ''completed''"
    by (simp add: entry_def)
  ultimately show ?thesis using True by auto
next
  case False
  then show ?thesis
    by (auto simp add: progress_plan_all entry_def)
qed

text \<open>
  C3. Take a session on which generate-plan has just succeeded with \<open>N\<close> topics, and apply
  set-topic-status with status \<open>completed\<close> to the indices 0, 1, 2, ... in this order (the
  store answering). For every \<open>k < N\<close>, the call at index \<open>k\<close> succeeds, and after it the
  plan still has \<open>N\<close> topics, of which exactly one is \<open>in-progress\<close> as long as \<open>k + 1 < N\<close>
  and none once \<open>k + 1 = N\<close>; and all topics are \<open>completed\<close> exactly when \<open>k + 1 = N\<close>.
\<close>

theorem complete_left_to_right:
  assumes "p_find_err c = None" and "p_save_err c = None"
    and "findOne W (p_sessionId c) (p_userId c) = Some s0"
    and "p_plan c = Inr items"
    and "k < length items"
  shows "\<exists>s. findOne (complete_first (snd (generate_plan W c)) (p_userId c) (p_sessionId c) (Suc k))
               (p_sessionId c) (p_userId c) = Some s
     \<and> code (fst (set_topic_status
                    (complete_first (snd (generate_plan W c)) (p_userId c) (p_sessionId c) k)
                    (complete_call (p_userId c) (p_sessionId c) k))) = 200
     \<and> length (studyPlan s) = length items
     \<and> in_progress_count (studyPlan s) = (if Suc k < length items then 1 else 0)
     \<and> ((\<forall>t \<in> set (studyPlan s). status t = ''completed'') \<longleftrightarrow> Suc k = length items)"
proof -
  let ?s1 = "start_plan (s0\<lparr>studyPlan := init_plan items\<rparr>)"
  let ?W1 = "snd (generate_plan W c)"
  have W1: "?W1 = save W (p_sessionId c) ?s1"
    using generate_plan_ok [OF assms(1-4)] by simp
  have "userId ?s1 = p_userId c"
    using findOne_userId [OF assms(3)] by (simp add: start_plan_userId)
  then have f1: "findOne ?W1 (p_sessionId c) (p_userId c) = Some ?s1"
    by (simp add: W1 findOne_save)
  have p1: "studyPlan ?s1 = progress_plan items 0"
    by (rule progress_plan_0)
  from assms(5) have "k \<le> length items" "Suc k \<le> length items" by simp_all
  from complete_first_state [OF f1 p1 this(1)] obtain sk where
    sk: "findOne (complete_first ?W1 (p_userId c) (p_sessionId c) k) (p_sessionId c) (p_userId c) = Some sk"
      "studyPlan sk = progress_plan items k"
    by blast
  from complete_first_state [OF f1 p1 \<open>Suc k \<le> length items\<close>] obtain s where
    s: "findOne (complete_first ?W1 (p_userId c) (p_sessionId c) (Suc k)) (p_sessionId c) (p_userId c) = Some s"
      "studyPlan s = progress_plan items (Suc k)"
    by blast
  have ok: "code (fst (set_topic_status (complete_first ?W1 (p_userId c) (p_sessionId c) k)
                    (complete_call (p_userId c) (p_sessionId c) k))) = 200"
    using complete_step [OF sk assms(5)] by (simp add: json_def)
  have all: "(\<forall>t \<in> set (studyPlan s). status t = ''completed'') \<longleftrightarrow> Suc k = length items"
    using assms(5) by (simp add: s(2) all_completed_progress) arith
  from s(1) ok all show ?thesis
    by (auto simp add: s(2) length_progress_plan in_progress_count_progress simp del: complete_first.simps)
qed

theorem complete_left_to_right_witness:
  "(\<exists>s. findOne
           (complete_first
              (snd (generate_plan (demo_world (demo_session [] (- 1))) (demo_plan_call (Inr demo_items))))
              ''65a1b2c3d4e5f60718293a4b'' ''507f1f77bcf86cd799439011'' (Suc 0))
           ''507f1f77bcf86cd799439011'' ''65a1b2c3d4e5f60718293a4b'' = Some s
        \<and> length (studyPlan s) = 2 \<and> in_progress_count (studyPlan s) = 1)
   \<and> (\<exists>s. findOne
           (complete_first
              (snd (generate_plan (demo_world (demo_session [] (- 1))) (demo_plan_call (Inr demo_items))))
              ''65a1b2c3d4e5f60718293a4b'' ''507f1f77bcf86cd799439011'' (Suc (Suc 0)))
           ''507f1f77bcf86cd799439011'' ''65a1b2c3d4e5f60718293a4b'' = Some s
        \<and> length (studyPlan s) = 2 \<and> in_progress_count (studyPlan s) = 0
        \<and> (\<forall>t \<in> set (studyPlan s). status t = ''completed''))"
proof -
  let ?c = "demo_plan_call (Inr demo_items)"
  let ?W = "demo_world (demo_session [] (- 1))"
  have l: "length demo_items = 2" by (simp add: demo_items_def)
  have a: "\<exists>s. findOne (complete_first (snd (generate_plan ?W ?c)) ''65a1b2c3d4e5f60718293a4b'' ''507f1f77bcf86cd799439011'' (Suc 0)) ''507f1f77bcf86cd799439011'' ''65a1b2c3d4e5f60718293a4b'' = Some s
        \<and> length (studyPlan s) = 2 \<and> in_progress_count (studyPlan s) = 1"
    using complete_left_to_right [of ?c ?W "demo_session [] (- 1)" demo_items 0]
    by (auto simp add: demo_plan_call_simps findOne_demo l simp del: complete_first.simps)
  have b: "\<exists>s. findOne (complete_first (snd (generate_plan ?W ?c)) ''65a1b2c3d4e5f60718293a4b'' ''507f1f77bcf86cd799439011'' (Suc (Suc 0))) ''507f1f77bcf86cd799439011'' ''65a1b2c3d4e5f60718293a4b'' = Some s
        \<and> length (studyPlan s) = 2 \<and> in_progress_count (studyPlan s) = 0
        \<and> (\<forall>t \<in> set (studyPlan s). status t = ''completed'')"
    using complete_left_to_right [of ?c ?W "demo_session [] (- 1)" demo_items 1]
    by (auto simp add: demo_plan_call_simps findOne_demo l simp del: complete_first.simps)
  from a b show ?thesis by blast
qed

end
